theory Spec2Isabelle
  imports Complex_Main "HOL-Library.Char_ord" "HOL-Library.List_Lexorder"
begin

section \<open>Python strings\<close>

text \<open>
  A Python \<^verbatim>\<open>str\<close> is modelled as a \<^typ>\<open>string\<close> in which every \<^typ>\<open>char\<close> is one
  code point below 256, so \<^const>\<open>length\<close> is Python's \<^verbatim>\<open>len\<close>. The character classes
  are those of \<^verbatim>\<open>str.isspace\<close> and \<^verbatim>\<open>str.isdigit\<close> on these code points.
\<close>

definition py_isspace :: "char \<Rightarrow> bool" where
  "py_isspace c =
     (let n = (of_char c :: nat)
      in (9 \<le> n \<and> n \<le> 13) \<or> (28 \<le> n \<and> n \<le> 32) \<or> n = 133 \<or> n = 160)"

definition py_isdigit_char :: "char \<Rightarrow> bool" where
  "py_isdigit_char c =
     (let n = (of_char c :: nat)
      in (48 \<le> n \<and> n \<le> 57) \<or> n = 178 \<or> n = 179 \<or> n = 185)"

text \<open>\<^verbatim>\<open>s.isdigit()\<close>: every character is a digit and there is at least one.\<close>

definition py_isdigit :: "string \<Rightarrow> bool" where
  "py_isdigit s = (s \<noteq> [] \<and> list_all py_isdigit_char s)"

text \<open>\<^verbatim>\<open>s.strip()\<close>: leading and trailing whitespace removed.\<close>

definition py_strip :: "string \<Rightarrow> string" where
  "py_strip s = rev (dropWhile py_isspace (rev (dropWhile py_isspace s)))"

text \<open>\<^verbatim>\<open>s.startswith(p)\<close> and \<^verbatim>\<open>s.endswith(p)\<close>.\<close>

definition startswith :: "string \<Rightarrow> string \<Rightarrow> bool" where
  "startswith s p = (take (length p) s = p)"

definition endswith :: "string \<Rightarrow> string \<Rightarrow> bool" where
  "endswith s p = (length p \<le> length s \<and> drop (length s - length p) s = p)"

text \<open>\<^verbatim>\<open>sep.join(xs)\<close>.\<close>

fun join :: "string \<Rightarrow> string list \<Rightarrow> string" where
  "join sep [] = []"
| "join sep [x] = x"
| "join sep (x # y # ys) = x @ sep @ join sep (y # ys)"

section \<open>Identifier normalization\<close>

text \<open>
  \<^verbatim>\<open>clean_employee_id\<close>: \<^verbatim>\<open>employee_id[:-2]\<close> drops the last two characters; the
  slice of a string shorter than two characters is empty.
\<close>

definition clean_employee_id :: "string \<Rightarrow> string" where
  "clean_employee_id employee_id =
     (if endswith employee_id ''.0'' \<and> py_isdigit (take (length employee_id - 2) employee_id)
      then take (length employee_id - 2) employee_id
      else employee_id)"

text \<open>
  The normalization the batch applies to a present employee number:
  \<^verbatim>\<open>clean_employee_id(str(employee_id).strip())\<close>.
\<close>

definition normalize_id :: "string \<Rightarrow> string" where
  "normalize_id s = clean_employee_id (py_strip s)"

section \<open>Output naming\<close>

definition OUTPUT_FOLDER :: string where
  "OUTPUT_FOLDER = ''Badge_output''"

definition PRINT_FOLDER :: string where
  "PRINT_FOLDER = ''print''"

text \<open>
  The nine characters \<^verbatim>\<open>sanitize_filename\<close> replaces, in the order of the source's
  list; the double quote is code point 34 and the backslash code point 92.
\<close>

definition illegal_chars :: "char list" where
  "illegal_chars =
     [CHR ''<'', CHR ''>'', CHR '':'', CHR 0x22, CHR ''/'', CHR 0x5C, CHR ''|'', CHR ''?'', CHR ''*'']"

text \<open>\<^verbatim>\<open>s.replace(c, r)\<close> for one-character strings \<^verbatim>\<open>c\<close> and \<^verbatim>\<open>r\<close>.\<close>

definition replace_char :: "char \<Rightarrow> char \<Rightarrow> string \<Rightarrow> string" where
  "replace_char c r s = map (\<lambda>x. if x = c then r else x) s"

text \<open>The loop of \<^verbatim>\<open>sanitize_filename\<close> over the illegal characters, in their order.\<close>

definition sanitize_filename :: "string \<Rightarrow> string" where
  "sanitize_filename filename = foldl (\<lambda>f c. replace_char c CHR ''_'' f) filename illegal_chars"

text \<open>
  \<^verbatim>\<open>employee_id[4:] if employee_id.startswith('No.') else employee_id\<close>: the test is on
  three characters, the slice drops four.
\<close>

definition name_for_filename :: "string \<Rightarrow> string" where
  "name_for_filename employee_id =
     (if startswith employee_id ''No.'' then drop 4 employee_id else employee_id)"

text \<open>\<^verbatim>\<open>os.path.join(a, b)\<close> with the POSIX separator.\<close>

definition os_path_join :: "string \<Rightarrow> string \<Rightarrow> string" where
  "os_path_join a b =
     (if startswith b ''/'' then b
      else if a = [] \<or> endswith a ''/'' then a @ b
      else a @ ''/'' @ b)"

datatype side = Front | Back

fun side_name :: "side \<Rightarrow> string" where
  "side_name Front = ''front''"
| "side_name Back = ''back''"

text \<open>\<^verbatim>\<open>side.capitalize()\<close> on the two side names.\<close>

fun side_capitalized :: "side \<Rightarrow> string" where
  "side_capitalized Front = ''Front''"
| "side_capitalized Back = ''Back''"

definition badge_basename :: "side \<Rightarrow> string \<Rightarrow> string" where
  "badge_basename sd employee_id =
     ''badge_'' @ side_name sd @ ''_'' @ sanitize_filename (name_for_filename employee_id) @ ''.png''"

definition output_filename :: "side \<Rightarrow> string \<Rightarrow> string" where
  "output_filename sd employee_id = os_path_join OUTPUT_FOLDER (badge_basename sd employee_id)"

text \<open>
  The naming rule in the specification's words, for comparison with the code: the literal
  prefix \<^verbatim>\<open>No.\<close> is stripped, then every illegal character becomes an underscore.
\<close>

definition spec_strip_prefix :: "string \<Rightarrow> string" where
  "spec_strip_prefix employee_id =
     (if startswith employee_id ''No.'' then drop (length ''No.'') employee_id else employee_id)"

definition spec_safe_id :: "string \<Rightarrow> string" where
  "spec_safe_id employee_id =
     map (\<lambda>c. if c \<in> set illegal_chars then CHR ''_'' else c) (spec_strip_prefix employee_id)"

definition spec_basename :: "side \<Rightarrow> string \<Rightarrow> string" where
  "spec_basename sd employee_id = ''badge_'' @ side_name sd @ ''_'' @ spec_safe_id employee_id @ ''.png''"

section \<open>Badge records and the renderer's environment\<close>

text \<open>
  A badge record is a Python dict from keys to JSON-like values. The renderer reads a
  string under \<^verbatim>\<open>name\<close> and \<^verbatim>\<open>id\<close> and an integer under \<^verbatim>\<open>name_char_limit\<close>; paths,
  sizes, positions and colours are handed to the imaging library as they are.
\<close>

datatype pyval = VStr string | VInt int | VList "pyval list"

type_synonym pydict = "string \<rightharpoonup> pyval"

text \<open>Python's truth value of a value, as \<^verbatim>\<open>if data.get('photo_img')\<close> takes it.\<close>

fun truthy :: "pyval \<Rightarrow> bool" where
  "truthy (VStr s) = (s \<noteq> [])"
| "truthy (VInt n) = (n \<noteq> 0)"
| "truthy (VList vs) = (vs \<noteq> [])"

datatype py_exn =
    Exception string
  | KeyError string
  | TypeError string
  | AttributeError string
  | OSError string

text \<open>\<^verbatim>\<open>str(e)\<close>: a \<^verbatim>\<open>KeyError\<close> prints its key in quotes.\<close>

fun exn_text :: "py_exn \<Rightarrow> string" where
  "exn_text (Exception m) = m"
| "exn_text (KeyError k) = [CHR 0x27] @ k @ [CHR 0x27]"
| "exn_text (TypeError m) = m"
| "exn_text (AttributeError m) = m"
| "exn_text (OSError m) = m"

datatype gui_msg = ShowError string string | ShowInfo string string

datatype font_outcome = FontLoaded | FontIOError string | FontRaises py_exn

text \<open>
  The imaging library and the file system are opaque services. Each field says whether
  the call succeeds on the given arguments: \<open>None\<close> is success, \<open>Some e\<close> is the
  exception raised (for the calls made under \<^verbatim>\<open>except Exception\<close>, its text).
  \<^item> \<open>makedirs\<close>: \<^verbatim>\<open>os.makedirs(path, exist_ok=True)\<close>;
  \<^item> \<open>image_open\<close>: \<^verbatim>\<open>Image.open(path)\<close> and \<^verbatim>\<open>convert("RGBA")\<close>;
  \<^item> \<open>photo_open\<close>, \<open>photo_resize\<close>, \<open>photo_paste\<close>: the three calls of the photo step,
    on the photo path, the size and the position;
  \<^item> \<open>truetype\<close>: \<^verbatim>\<open>ImageFont.truetype(path, int(size))\<close>, which loads the font,
    raises \<^verbatim>\<open>IOError\<close>, or raises something else (as \<^verbatim>\<open>int\<close> does on a bad size);
  \<^item> \<open>draw_text\<close>: \<^verbatim>\<open>tuple(position)\<close> and \<^verbatim>\<open>draw.text\<close> on position, text, the font
    (given by its path and size entries) and colour;
  \<^item> \<open>image_save\<close>: \<^verbatim>\<open>img.save(path, quality=100)\<close>;
  \<^item> \<open>log_write\<close>: creating the log's directory and writing the log file.
\<close>

record world =
  makedirs :: "string \<Rightarrow> py_exn option"
  image_open :: "pyval \<Rightarrow> string option"
  photo_open :: "pyval \<Rightarrow> string option"
  photo_resize :: "pyval \<Rightarrow> pyval \<Rightarrow> string option"
  photo_paste :: "pyval \<Rightarrow> pyval \<Rightarrow> string option"
  truetype :: "pyval \<Rightarrow> pyval \<Rightarrow> font_outcome"
  draw_text :: "pyval \<Rightarrow> pyval \<Rightarrow> pyval option \<Rightarrow> pyval option \<Rightarrow> pyval \<Rightarrow> py_exn option"
  image_save :: "string \<Rightarrow> py_exn option"
  log_write :: "string \<Rightarrow> py_exn option"

text \<open>
  How a step of the renderer fails: \<open>Caught msg\<close> is an error the step catches and
  hands, as \<^verbatim>\<open>error_msg\<close>, to the \<^verbatim>\<open>suppress_message\<close> handler; \<open>Uncaught e\<close> is an
  exception no handler of the renderer catches.
\<close>

datatype failure = Caught string | Uncaught py_exn

section \<open>The badge renderer\<close>

definition plain_elements :: "string list" where
  "plain_elements = [''name'', ''id'', ''department'', ''position'']"

definition split_elements :: "string list" where
  "split_elements = [''first_name'', ''last_name'', ''id'', ''department'', ''position'']"

text \<open>\<^verbatim>\<open>first, last = name.split(' ', 1)\<close> on a name that contains a space.\<close>

definition split_first :: "string \<Rightarrow> string" where
  "split_first name = takeWhile (\<lambda>c. c \<noteq> CHR '' '') name"

definition split_last :: "string \<Rightarrow> string" where
  "split_last name = drop 1 (dropWhile (\<lambda>c. c \<noteq> CHR '' '') name)"

definition name_too_long_msg :: "string \<Rightarrow> string" where
  "name_too_long_msg name =
     ''The name '' @ [CHR 0x27] @ name @ [CHR 0x27] @ '' is too long. '' @
     ''Please use spaces to separate first and last names or edit it manually.''"

text \<open>\<^verbatim>\<open>data.get(k, d)\<close>.\<close>

definition get_default :: "pydict \<Rightarrow> string \<Rightarrow> pyval \<Rightarrow> pyval" where
  "get_default data k d = (case data k of None \<Rightarrow> d | Some v \<Rightarrow> v)"

text \<open>
  Name handling: \<^verbatim>\<open>data.get('name', '')\<close>, \<^verbatim>\<open>data.get('name_char_limit', 10)\<close>, then
  the update of \<^verbatim>\<open>data\<close>. A name that is not a string, or a limit that is not an
  integer, is outside the records the renderer is written for; the model raises
  \<^verbatim>\<open>TypeError\<close> there, as \<^verbatim>\<open>len\<close> and \<^verbatim>\<open>>\<close> do on most such values.
\<close>

definition name_step :: "pydict \<Rightarrow> failure + pydict" where
  "name_step data =
     (case get_default data ''name'' (VStr []) of
        VStr name \<Rightarrow>
          (case get_default data ''name_char_limit'' (VInt 10) of
             VInt char_limit \<Rightarrow>
               if int (length name) > char_limit then
                 if CHR '' '' \<in> set name then
                   Inr (data ++ [''first_name'' \<mapsto> VStr (split_first name),
                                 ''last_name'' \<mapsto> VStr (split_last name),
                                 ''text_elements'' \<mapsto> VList (map VStr split_elements)])
                 else Inl (Caught (name_too_long_msg name))
               else Inr (data ++ [''text_elements'' \<mapsto> VList (map VStr plain_elements)])
           | _ \<Rightarrow> Inl (Uncaught (TypeError ''name_char_limit'')))
      | _ \<Rightarrow> Inl (Uncaught (TypeError ''name'')))"

text \<open>
  \<^verbatim>\<open>data['text_elements']\<close> as the later steps read it. The name step has always
  stored a list of strings there; the other cases are never reached.
\<close>

definition text_elements :: "pydict \<Rightarrow> string list" where
  "text_elements data =
     (case data ''text_elements'' of
        Some (VList vs) \<Rightarrow> map (\<lambda>v. case v of VStr k \<Rightarrow> k | _ \<Rightarrow> []) vs
      | _ \<Rightarrow> [])"

text \<open>Loading the background: any exception, a missing key included, is caught.\<close>

definition background_step :: "world \<Rightarrow> side \<Rightarrow> pydict \<Rightarrow> failure + unit" where
  "background_step w sd data =
     (case (case data ''background_img'' of
              None \<Rightarrow> Some (exn_text (KeyError ''background_img''))
            | Some p \<Rightarrow> image_open w p) of
        Some e \<Rightarrow> Inl (Caught (''Failed to load '' @ side_name sd @ '' image: '' @ e))
      | None \<Rightarrow> Inr ())"

text \<open>The photo, on the front side when a photo path is given; any exception is caught.\<close>

definition photo_error :: "world \<Rightarrow> pydict \<Rightarrow> pyval \<Rightarrow> string option" where
  "photo_error w data photo =
     (case photo_open w photo of
        Some e \<Rightarrow> Some e
      | None \<Rightarrow>
          (case data ''photo_size'' of
             None \<Rightarrow> Some (exn_text (KeyError ''photo_size''))
           | Some sz \<Rightarrow>
               (case photo_resize w photo sz of
                  Some e \<Rightarrow> Some e
                | None \<Rightarrow>
                    (case data ''photo_position'' of
                       None \<Rightarrow> Some (exn_text (KeyError ''photo_position''))
                     | Some pos \<Rightarrow> photo_paste w photo pos))))"

definition photo_step :: "world \<Rightarrow> side \<Rightarrow> pydict \<Rightarrow> failure + unit" where
  "photo_step w sd data =
     (case data ''photo_img'' of
        None \<Rightarrow> Inr ()
      | Some photo \<Rightarrow>
          if sd = Front \<and> truthy photo then
            (case photo_error w data photo of
               Some e \<Rightarrow> Inl (Caught (''Failed to insert photo: '' @ e))
             | None \<Rightarrow> Inr ())
          else Inr ())"

text \<open>
  The fonts, one per text element, in the order of the list. Only \<^verbatim>\<open>IOError\<close> is
  caught: a missing \<^verbatim>\<open>font_<key>\<close> or \<^verbatim>\<open><key>_size\<close> raises \<^verbatim>\<open>KeyError\<close> past the
  handler. The colours are read with \<^verbatim>\<open>data.get\<close> and cannot fail.
\<close>

fun fonts_step :: "world \<Rightarrow> pydict \<Rightarrow> string list \<Rightarrow> failure + unit" where
  "fonts_step w data [] = Inr ()"
| "fonts_step w data (key # keys) =
     (case data (''font_'' @ key) of
        None \<Rightarrow> Inl (Uncaught (KeyError (''font_'' @ key)))
      | Some path \<Rightarrow>
          (case data (key @ ''_size'') of
             None \<Rightarrow> Inl (Uncaught (KeyError (key @ ''_size'')))
           | Some sz \<Rightarrow>
               (case truetype w path sz of
                  FontLoaded \<Rightarrow> fonts_step w data keys
                | FontIOError e \<Rightarrow> Inl (Caught (''Font not found: '' @ e))
                | FontRaises x \<Rightarrow> Inl (Uncaught x))))"

text \<open>Drawing the text elements; nothing is caught here.\<close>

fun draw_step :: "world \<Rightarrow> pydict \<Rightarrow> string list \<Rightarrow> failure + unit" where
  "draw_step w data [] = Inr ()"
| "draw_step w data (element # elements) =
     (case draw_text w
             (get_default data (element @ ''_position'') (VList [VInt 0, VInt 0]))
             (get_default data element (VStr []))
             (data (''font_'' @ element))
             (data (element @ ''_size''))
             (get_default data (element @ ''_color'') (VStr ''black'')) of
        Some x \<Rightarrow> Inl (Uncaught x)
      | None \<Rightarrow> draw_step w data elements)"

definition and_then :: "failure + unit \<Rightarrow> failure + unit \<Rightarrow> failure + unit" where
  "and_then a b = (case a of Inl f \<Rightarrow> Inl f | Inr u \<Rightarrow> b)"

text \<open>Everything between the name handling and the save, in the source's order.\<close>

definition image_steps :: "world \<Rightarrow> side \<Rightarrow> pydict \<Rightarrow> failure + unit" where
  "image_steps w sd data =
     and_then (background_step w sd data)
       (and_then (photo_step w sd data)
          (and_then (fonts_step w data (text_elements data))
             (draw_step w data (text_elements data))))"

text \<open>
  What a call of the renderer leaves behind: the exception it raised (if any), the
  messages it queued for the GUI, the image files it saved, and the record as updated.
\<close>

record render_result =
  raised :: "py_exn option"
  queued :: "gui_msg list"
  saved :: "string list"
  data_after :: pydict

text \<open>
  The handler every caught failure goes through:
  \<^verbatim>\<open>if not suppress_message: gui_queue.put(showerror) else: raise Exception(error_msg)\<close>
  and then \<^verbatim>\<open>return\<close>.
\<close>

fun report_failure :: "failure \<Rightarrow> bool \<Rightarrow> pydict \<Rightarrow> render_result" where
  "report_failure (Caught error_msg) suppress_message data =
     (if \<not> suppress_message
      then \<lparr>raised = None, queued = [ShowError ''Error'' error_msg], saved = [], data_after = data\<rparr>
      else \<lparr>raised = Some (Exception error_msg), queued = [], saved = [], data_after = data\<rparr>)"
| "report_failure (Uncaught e) suppress_message data =
     \<lparr>raised = Some e, queued = [], saved = [], data_after = data\<rparr>"

text \<open>The file name and the save; \<^verbatim>\<open>startswith\<close> exists on strings only.\<close>

definition save_step :: "world \<Rightarrow> side \<Rightarrow> pydict \<Rightarrow> bool \<Rightarrow> render_result" where
  "save_step w sd data suppress_message =
     (case get_default data ''id'' (VStr []) of
        VStr employee_id \<Rightarrow>
          (case image_save w (output_filename sd employee_id) of
             Some e \<Rightarrow> \<lparr>raised = Some e, queued = [], saved = [], data_after = data\<rparr>
           | None \<Rightarrow>
               \<lparr>raised = None,
                queued = (if \<not> suppress_message
                          then [ShowInfo ''Success''
                                  (side_capitalized sd @ '' Badge saved as '' @
                                   output_filename sd employee_id)]
                          else []),
                saved = [output_filename sd employee_id],
                data_after = data\<rparr>)
      | _ \<Rightarrow> \<lparr>raised = Some (AttributeError ''startswith''), queued = [], saved = [],
               data_after = data\<rparr>)"

text \<open>The render of a record whose name has been handled.\<close>

definition render_record :: "world \<Rightarrow> side \<Rightarrow> pydict \<Rightarrow> bool \<Rightarrow> render_result" where
  "render_record w sd data suppress_message =
     (case image_steps w sd data of
        Inl f \<Rightarrow> report_failure f suppress_message data
      | Inr u \<Rightarrow> save_step w sd data suppress_message)"

definition generate_badge :: "world \<Rightarrow> side \<Rightarrow> pydict \<Rightarrow> bool \<Rightarrow> render_result" where
  "generate_badge w sd data suppress_message =
     (case makedirs w OUTPUT_FOLDER of
        Some e \<Rightarrow> \<lparr>raised = Some e, queued = [], saved = [], data_after = data\<rparr>
      | None \<Rightarrow>
          (case name_step data of
             Inl f \<Rightarrow> report_failure f suppress_message data
           | Inr data' \<Rightarrow> render_record w sd data' suppress_message))"

text \<open>
  A call succeeded when it raised nothing and queued no error box; the font of a text
  element is unavailable when one of its two keys is missing or loading it fails.
\<close>

definition succeeded :: "render_result \<Rightarrow> bool" where
  "succeeded r = (raised r = None \<and> list_all (\<lambda>m. case m of ShowError t e \<Rightarrow> False | ShowInfo t e \<Rightarrow> True) (queued r))"

definition font_unavailable :: "world \<Rightarrow> pydict \<Rightarrow> string \<Rightarrow> bool" where
  "font_unavailable w data key =
     (case data (''font_'' @ key) of
        None \<Rightarrow> True
      | Some path \<Rightarrow>
          (case data (key @ ''_size'') of
             None \<Rightarrow> True
           | Some sz \<Rightarrow> truetype w path sz \<noteq> FontLoaded))"

section \<open>The batch\<close>

text \<open>
  A spreadsheet cell is \<open>None\<close> when pandas reads it as missing (\<^verbatim>\<open>pd.isna\<close>) and
  \<open>Some s\<close> otherwise, \<open>s\<close> being \<^verbatim>\<open>str(value)\<close>. A data frame has its column names
  and its rows; a row gives the cell of each column. Rows are numbered from 0, as the
  default index of \<^verbatim>\<open>read_excel\<close> numbers them.
\<close>

type_synonym cell = "string option"

record dataframe =
  columns :: "string list"
  rows :: "(string \<Rightarrow> cell) list"

definition required_columns :: "string list" where
  "required_columns =
     [''Local Name'', ''English Name'', ''Employee Number'', ''Department'', ''Position'',
      ''Department_en'', ''Position_en'']"

text \<open>\<^verbatim>\<open>astype(str)\<close> on a column: a missing cell becomes the text \<^verbatim>\<open>nan\<close>.\<close>

definition astype_str :: "cell \<Rightarrow> string" where
  "astype_str v = (case v of None \<Rightarrow> ''nan'' | Some s \<Rightarrow> s)"

definition is_missing :: "cell \<Rightarrow> bool" where
  "is_missing v = (case v of None \<Rightarrow> True | Some s \<Rightarrow> py_strip s = [])"

text \<open>Decimal digits of a natural number, for the row numbers in the messages.\<close>

fun show_nat :: "nat \<Rightarrow> string" where
  "show_nat n =
     (if n < 10 then [char_of (48 + n)]
      else show_nat (n div 10) @ [char_of (48 + n mod 10)])"

text \<open>
  \<^verbatim>\<open>employee_numbers[employee_numbers.duplicated(keep=False)].unique()\<close>: the values
  that occur more than once, each listed once, in the order of first occurrence.
\<close>

definition unique :: "'a list \<Rightarrow> 'a list" where
  "unique xs = rev (remdups (rev xs))"

definition duplicated_values :: "string list \<Rightarrow> string list" where
  "duplicated_values xs = unique (filter (\<lambda>x. count_list xs x > 1) xs)"

text \<open>
  \<^verbatim>\<open>df['Employee Number'].astype(str).str.strip()\<close> and the duplicates among these
  values: trimmed, and not passed through \<^verbatim>\<open>clean_employee_id\<close>.
\<close>

definition employee_numbers :: "dataframe \<Rightarrow> string list" where
  "employee_numbers df = map (\<lambda>row. py_strip (astype_str (row ''Employee Number''))) (rows df)"

definition batch_duplicates :: "dataframe \<Rightarrow> string list" where
  "batch_duplicates df = duplicated_values (employee_numbers df)"

type_synonym preset = "string \<rightharpoonup> pydict"

text \<open>What one row contributes: its error messages and the image files saved for it.\<close>

record row_result =
  row_errors :: "string list"
  row_saved :: "string list"

definition missing_fields :: "(string \<Rightarrow> cell) \<Rightarrow> string list" where
  "missing_fields row =
     (if is_missing (row ''Local Name'') then [''Local Name''] else []) @
     (if is_missing (row ''English Name'') then [''English Name''] else []) @
     (if is_missing (row ''Employee Number'') then [''Employee Number''] else []) @
     (if is_missing (row ''Department'') then [''Department''] else []) @
     (if is_missing (row ''Position'') then [''Position''] else []) @
     (if is_missing (row ''Department_en'') then [''Department_en''] else []) @
     (if is_missing (row ''Position_en'') then [''Position_en''] else [])"

definition row_prefix :: "nat \<Rightarrow> string" where
  "row_prefix index = ''Row '' @ show_nat (index + 2) @ '': ''"

definition missing_fields_msg :: "nat \<Rightarrow> string list \<Rightarrow> string" where
  "missing_fields_msg index missing =
     row_prefix index @ ''Missing fields - '' @ join '', '' missing @ ''.''"

definition duplicated_msg :: "nat \<Rightarrow> string \<Rightarrow> string" where
  "duplicated_msg index employee_id =
     row_prefix index @ ''Employee Number '' @ [CHR 0x27] @ employee_id @ [CHR 0x27] @
     '' is duplicated.''"

definition failed_msg :: "nat \<Rightarrow> string \<Rightarrow> py_exn \<Rightarrow> string" where
  "failed_msg index employee_id e =
     row_prefix index @ ''Failed to generate badge for Employee ID '' @ employee_id @ '': '' @
     exn_text e"

text \<open>The records of the batch path: the row's fields first, the preset merged over them.\<close>

definition front_data :: "(string \<Rightarrow> cell) \<Rightarrow> string \<Rightarrow> pydict \<Rightarrow> pydict" where
  "front_data row employee_id front_preset =
     [''name'' \<mapsto> VStr (py_strip (astype_str (row ''Local Name''))),
      ''id'' \<mapsto> VStr (''No. '' @ employee_id),
      ''department'' \<mapsto> VStr (py_strip (astype_str (row ''Department''))),
      ''position'' \<mapsto> VStr (py_strip (astype_str (row ''Position'')))] ++ front_preset"

definition back_data :: "(string \<Rightarrow> cell) \<Rightarrow> string \<Rightarrow> pydict \<Rightarrow> pydict" where
  "back_data row employee_id back_preset =
     [''name'' \<mapsto> VStr (py_strip (astype_str (row ''English Name''))),
      ''id'' \<mapsto> VStr (''No. '' @ employee_id),
      ''department'' \<mapsto> VStr (py_strip (astype_str (row ''Department_en''))),
      ''position'' \<mapsto> VStr (py_strip (astype_str (row ''Position_en'')))] ++ back_preset"

text \<open>
  The two renders of a valid row. Whatever is raised on the way, a missing \<^verbatim>\<open>front\<close> or
  \<^verbatim>\<open>back\<close> template included, ends the row with one message; a failure of the front
  render leaves the back untried.
\<close>

definition render_row ::
  "world \<Rightarrow> preset \<Rightarrow> nat \<Rightarrow> (string \<Rightarrow> cell) \<Rightarrow> string \<Rightarrow> row_result" where
  "render_row w pre index row employee_id =
     (case pre ''front'' of
        None \<Rightarrow> \<lparr>row_errors = [failed_msg index employee_id (KeyError ''front'')], row_saved = []\<rparr>
      | Some front_preset \<Rightarrow>
          let front = generate_badge w Front (front_data row employee_id front_preset) True in
          (case raised front of
             Some e \<Rightarrow> \<lparr>row_errors = [failed_msg index employee_id e], row_saved = saved front\<rparr>
           | None \<Rightarrow>
               (case pre ''back'' of
                  None \<Rightarrow> \<lparr>row_errors = [failed_msg index employee_id (KeyError ''back'')],
                            row_saved = saved front\<rparr>
                | Some back_preset \<Rightarrow>
                    let back = generate_badge w Back (back_data row employee_id back_preset) True in
                    (case raised back of
                       Some e \<Rightarrow> \<lparr>row_errors = [failed_msg index employee_id e],
                                  row_saved = saved front @ saved back\<rparr>
                     | None \<Rightarrow> \<lparr>row_errors = [], row_saved = saved front @ saved back\<rparr>))))"

text \<open>
  \<^verbatim>\<open>process_row\<close>, a closure of the batch task: it is defined after the column check, so
  the seven cells it reads exist, and it sees the preset and the duplicates of the task.
\<close>

definition process_row ::
  "world \<Rightarrow> preset \<Rightarrow> string list \<Rightarrow> nat \<Rightarrow> (string \<Rightarrow> cell) \<Rightarrow> row_result" where
  "process_row w pre duplicates index row =
     (if missing_fields row \<noteq> [] then
        \<lparr>row_errors = [missing_fields_msg index (missing_fields row)], row_saved = []\<rparr>
      else
        let employee_id = clean_employee_id (py_strip (astype_str (row ''Employee Number''))) in
        if employee_id \<in> set duplicates then
          \<lparr>row_errors = [duplicated_msg index employee_id], row_saved = []\<rparr>
        else render_row w pre index row employee_id)"

text \<open>
  The rows are handed to a pool of five workers. Each row's work reads only the row, the
  preset and the duplicates, and appends to the error list under a lock, so the model
  runs the rows one after the other: the list of errors and the list of files are those
  of the rows in row order (the pool may append them in another order).
\<close>

fun process_rows ::
  "world \<Rightarrow> preset \<Rightarrow> string list \<Rightarrow> nat \<Rightarrow> (string \<Rightarrow> cell) list \<Rightarrow> row_result list" where
  "process_rows w pre duplicates index [] = []"
| "process_rows w pre duplicates index (row # rest) =
     process_row w pre duplicates index row # process_rows w pre duplicates (Suc index) rest"

text \<open>
  What a batch leaves behind: the boxes queued for the GUI, the lines of the error log
  (\<open>None\<close> when no log is written), the image files saved, and the result of each row
  (none when the batch stops before the rows).
\<close>

record batch_result =
  batch_queued :: "gui_msg list"
  batch_log :: "string list option"
  batch_saved :: "string list"
  batch_rows :: "row_result list"

definition missing_columns :: "dataframe \<Rightarrow> string list" where
  "missing_columns df = filter (\<lambda>col. col \<notin> set (columns df)) required_columns"

definition missing_columns_msg :: "string list \<Rightarrow> string" where
  "missing_columns_msg cols =
     ''The Excel file is missing the following required columns: '' @ join '', '' cols"

definition duplicate_message :: "string list \<Rightarrow> string" where
  "duplicate_message duplicates = ''Duplicate Employee Numbers found: '' @ join '', '' duplicates"

definition log_notice :: "string \<Rightarrow> string" where
  "log_notice error_log_path =
     ''Errors were encountered during batch generation. Please check the error log at:'' @
     [CHR 0x0A] @ error_log_path"

definition success_notice :: string where
  "success_notice =
     ''All badges have been successfully generated and saved in the '' @ [CHR 0x27] @
     ''Badge_output'' @ [CHR 0x27] @ '' folder.''"

text \<open>
  \<^verbatim>\<open>write_errors_to_log\<close>: the lines written (if the write succeeds) and the box queued
  (if it does not).
\<close>

definition write_errors_to_log ::
  "world \<Rightarrow> string list \<Rightarrow> string \<Rightarrow> string list option \<times> gui_msg list" where
  "write_errors_to_log w errors error_log_path =
     (case log_write w error_log_path of
        None \<Rightarrow> (Some errors, [])
      | Some e \<Rightarrow> (None, [ShowError ''Error'' (''Failed to write to error log: '' @ exn_text e)]))"

text \<open>
  The batch task, from the data frame \<^verbatim>\<open>read_excel\<close> returned: the column check, the
  preset check, the duplicates, the rows, the log.
\<close>

definition task ::
  "world \<Rightarrow> (string \<rightharpoonup> preset) \<Rightarrow> string \<Rightarrow> string \<Rightarrow> dataframe \<Rightarrow> batch_result" where
  "task w presets preset_name error_log_path df =
     (if missing_columns df \<noteq> [] then
        let error_message = missing_columns_msg (missing_columns df);
            (lg, boxes) = write_errors_to_log w [error_message] error_log_path
        in \<lparr>batch_queued = ShowError ''Error'' error_message # boxes, batch_log = lg,
             batch_saved = [], batch_rows = []\<rparr>
      else
        (case presets preset_name of
           None \<Rightarrow>
             let error_message =
                   ''The selected preset '' @ [CHR 0x27] @ preset_name @ [CHR 0x27] @
                   '' does not exist.'';
                 (lg, boxes) = write_errors_to_log w [error_message] error_log_path
             in \<lparr>batch_queued = ShowError ''Error'' error_message # boxes, batch_log = lg,
                  batch_saved = [], batch_rows = []\<rparr>
         | Some pre \<Rightarrow>
             let duplicates = batch_duplicates df;
                 results = process_rows w pre duplicates 0 (rows df);
                 errors = (if duplicates \<noteq> [] then [duplicate_message duplicates] else []) @
                          concat (map row_errors results);
                 files = concat (map row_saved results)
             in if errors \<noteq> [] then
                  let (lg, boxes) = write_errors_to_log w errors error_log_path
                  in \<lparr>batch_queued =
                        boxes @ [ShowError ''Batch Generation Errors'' (log_notice error_log_path)],
                      batch_log = lg, batch_saved = files, batch_rows = results\<rparr>
                else
                  \<lparr>batch_queued = [ShowInfo ''Success'' success_notice], batch_log = None,
                   batch_saved = files, batch_rows = results\<rparr>))"

text \<open>The error list of a batch that reaches its rows.\<close>

definition batch_errors :: "world \<Rightarrow> preset \<Rightarrow> dataframe \<Rightarrow> string list" where
  "batch_errors w pre df =
     (if batch_duplicates df \<noteq> [] then [duplicate_message (batch_duplicates df)] else []) @
     concat (map row_errors (process_rows w pre (batch_duplicates df) 0 (rows df)))"

section \<open>The single-record path of the GUI\<close>

text \<open>
  The texts of the entry widgets when the button is pressed. \<^verbatim>\<open>str.upper\<close> is a
  parameter: it maps some characters to code points beyond 255.
\<close>

record entries =
  name_entry :: string
  id_entry :: string
  department_entry :: string
  position_entry :: string
  photo_entry :: string

definition user_input :: "(string \<Rightarrow> string) \<Rightarrow> entries \<Rightarrow> pydict" where
  "user_input upper es =
     [''name'' \<mapsto> VStr (py_strip (name_entry es)),
      ''id'' \<mapsto> VStr (''No. '' @ upper (py_strip (id_entry es))),
      ''department'' \<mapsto> VStr (py_strip (department_entry es)),
      ''position'' \<mapsto> VStr (py_strip (position_entry es))]"

text \<open>
  The record \<^verbatim>\<open>generate\<close> builds: a copy of the preset's side, the user's input merged
  over it, and on the front side the photo path.
\<close>

definition gui_data :: "(string \<Rightarrow> string) \<Rightarrow> side \<Rightarrow> pydict \<Rightarrow> entries \<Rightarrow> pydict" where
  "gui_data upper sd side_preset es =
     (let data = side_preset ++ user_input upper es
      in if sd = Front then data(''photo_img'' \<mapsto> VStr (py_strip (photo_entry es))) else data)"

text \<open>\<^verbatim>\<open>generate\<close>: the lookups raise \<^verbatim>\<open>KeyError\<close>; the render runs in its own thread.\<close>

definition generate ::
  "world \<Rightarrow> (string \<Rightarrow> string) \<Rightarrow> (string \<rightharpoonup> preset) \<Rightarrow> string \<Rightarrow> side \<Rightarrow> entries \<Rightarrow>
     py_exn + render_result" where
  "generate w upper presets preset_name sd es =
     (case presets preset_name of
        None \<Rightarrow> Inl (KeyError preset_name)
      | Some pre \<Rightarrow>
          (case pre (side_name sd) of
             None \<Rightarrow> Inl (KeyError (side_name sd))
           | Some side_preset \<Rightarrow> Inr (generate_badge w sd (gui_data upper sd side_preset es) False)))"

section \<open>The PDF compositor\<close>

text \<open>
  The configuration \<^verbatim>\<open>generate_badge_pdf\<close> reads: a field is \<open>None\<close> when the key is
  absent from \<^verbatim>\<open>config.json\<close>. Lengths are millimetres; they are exact reals here, the
  rounding of Python's floats is not modelled.
\<close>

record pdf_config =
  badge_folder :: "string option"
  badge_front_prefix :: "string option"
  badge_back_prefix :: "string option"
  output_pdf :: "string option"
  group_spacing_x :: "real option"
  group_spacing_y :: "real option"
  paper_width :: "real option"
  paper_height :: "real option"
  start_y_position :: "real option"
  badge_width :: "real option"

text \<open>The values the ten lookups bind.\<close>

record layout =
  folder :: string
  front_prefix :: string
  back_prefix :: string
  out_pdf :: string
  spacing_x :: real
  spacing_y :: real
  start_y :: real
  width :: real

text \<open>\<^verbatim>\<open>config[key]\<close> under the handler that reports a missing key.\<close>

definition lookup :: "'a option \<Rightarrow> string \<Rightarrow> ('a \<Rightarrow> string + 'b) \<Rightarrow> string + 'b" where
  "lookup v key k =
     (case v of
        None \<Rightarrow> Inl (''Missing key in config.json: '' @ exn_text (KeyError key))
      | Some x \<Rightarrow> k x)"

text \<open>The ten lookups, in the source's order; the first missing key is the one reported.\<close>

definition read_layout :: "pdf_config \<Rightarrow> string + layout" where
  "read_layout config =
     lookup (badge_folder config) ''badge_folder'' (\<lambda>badge_folder.
     lookup (badge_front_prefix config) ''badge_front_prefix'' (\<lambda>front_prefix.
     lookup (badge_back_prefix config) ''badge_back_prefix'' (\<lambda>back_prefix.
     lookup (output_pdf config) ''output_pdf'' (\<lambda>output_pdf.
     lookup (group_spacing_x config) ''group_spacing_x'' (\<lambda>group_spacing_x.
     lookup (group_spacing_y config) ''group_spacing_y'' (\<lambda>group_spacing_y.
     lookup (paper_width config) ''paper_width'' (\<lambda>paper_width.
     lookup (paper_height config) ''paper_height'' (\<lambda>paper_height.
     lookup (start_y_position config) ''start_y_position'' (\<lambda>start_y.
     lookup (badge_width config) ''badge_width'' (\<lambda>badge_width.
       Inr \<lparr>folder = badge_folder, front_prefix = front_prefix, back_prefix = back_prefix,
            out_pdf = output_pdf, spacing_x = group_spacing_x, spacing_y = group_spacing_y,
            start_y = start_y, width = badge_width\<rparr>))))))))))"

text \<open>
  What \<^verbatim>\<open>Image.open\<close> tells of an image: its size in pixels and the horizontal entry of
  its \<^verbatim>\<open>dpi\<close> information, if it has one.
\<close>

record image_info =
  px_width :: nat
  px_height :: nat
  dpi_x :: "real option"

datatype listing = NoSuchFolder | ListingFails string | Files "string list"

text \<open>
  The services of the compositor: \<^verbatim>\<open>os.listdir\<close>, \<^verbatim>\<open>Image.open\<close> (the image's
  information, or the text of the exception), \<^verbatim>\<open>pdf.image\<close> at a path, position and size,
  \<^verbatim>\<open>os.makedirs\<close>, \<^verbatim>\<open>os.getcwd\<close> and \<^verbatim>\<open>pdf.output\<close>; \<open>Some e\<close> is the text of the
  exception raised.
\<close>

record pdf_world =
  listdir :: "string \<Rightarrow> listing"
  open_info :: "string \<Rightarrow> string + image_info"
  pdf_image :: "string \<Rightarrow> real \<Rightarrow> real \<Rightarrow> real \<Rightarrow> real \<Rightarrow> string option"
  print_makedirs :: "string \<Rightarrow> string option"
  getcwd :: string
  pdf_output :: "string \<Rightarrow> string option"

definition DEFAULT_DPI :: real where
  "DEFAULT_DPI = 300"

text \<open>\<^verbatim>\<open>get_image_dimensions\<close>: millimetres from pixels and DPI; a DPI of 0 raises.\<close>

definition get_image_dimensions :: "pdf_world \<Rightarrow> string \<Rightarrow> string + real \<times> real" where
  "get_image_dimensions w image_path =
     (case open_info w image_path of
        Inl e \<Rightarrow> Inl e
      | Inr img \<Rightarrow>
          let dpi = (case dpi_x img of None \<Rightarrow> DEFAULT_DPI | Some d \<Rightarrow> d)
          in if dpi = 0 then Inl ''division by zero''
             else Inr ((real (px_width img) / dpi) * 25.4, (real (px_height img) / dpi) * 25.4))"

text \<open>\<^verbatim>\<open>f[len(prefix):-4]\<close>: a slice that is empty when the name is too short.\<close>

definition file_key :: "string \<Rightarrow> string \<Rightarrow> string" where
  "file_key prefix f = take (length f - 4 - length prefix) (drop (length prefix) f)"

definition prefixed_files :: "string \<Rightarrow> string list \<Rightarrow> string list" where
  "prefixed_files prefix files = sort (filter (\<lambda>f. startswith f prefix) files)"

text \<open>The dict comprehension: a later file replaces an earlier one with the same key.\<close>

definition files_dict :: "string \<Rightarrow> string list \<Rightarrow> (string \<rightharpoonup> string)" where
  "files_dict prefix fs = foldl (\<lambda>m f. m(file_key prefix f \<mapsto> f)) Map.empty fs"

text \<open>\<^verbatim>\<open>sorted(set(front_files_dict.keys()).union(back_files_dict.keys()))\<close>.\<close>

definition all_keys :: "string \<Rightarrow> string \<Rightarrow> string list \<Rightarrow> string list" where
  "all_keys fp bp files =
     sort (remdups (map (file_key fp) (prefixed_files fp files) @
                    map (file_key bp) (prefixed_files bp files)))"

text \<open>An image placed on a page, and the images of one key.\<close>

record placement =
  img_path :: string
  pos_x :: real
  pos_y :: real
  img_w :: real
  img_h :: real

record slot =
  slot_key :: string
  slot_images :: "placement list"

type_synonym page = "slot list"

definition x_pos :: "layout \<Rightarrow> nat \<Rightarrow> real" where
  "x_pos lay j = (width lay + spacing_x lay) * real j + spacing_x lay"

text \<open>
  One image: its dimensions, then \<^verbatim>\<open>pdf.image\<close>; any exception is raised again with the
  path in its text. \<open>which\<close> is \<^verbatim>\<open>front\<close> or \<^verbatim>\<open>back\<close>.
\<close>

definition place_image ::
  "pdf_world \<Rightarrow> string \<Rightarrow> string \<Rightarrow> real \<Rightarrow> real \<Rightarrow> string + placement" where
  "place_image w which full_path x y =
     (case (case get_image_dimensions w full_path of
              Inl e \<Rightarrow> Inl e
            | Inr (w_mm, h_mm) \<Rightarrow>
                (case pdf_image w full_path x y w_mm h_mm of
                   Some e \<Rightarrow> Inl e
                 | None \<Rightarrow> Inr \<lparr>img_path = full_path, pos_x = x, pos_y = y,
                                 img_w = w_mm, img_h = h_mm\<rparr>)) of
        Inl e \<Rightarrow> Inl (''Failed to insert '' @ which @ '' image '' @ [CHR 0x27] @ full_path @
                       [CHR 0x27] @ '': '' @ e)
      | Inr p \<Rightarrow> Inr p)"

text \<open>
  \<^verbatim>\<open>if front_img_path:\<close> holds for a file name that is there and not empty; the result
  is that file name.
\<close>

definition present :: "string option \<Rightarrow> string option" where
  "present p = (case p of None \<Rightarrow> None | Some f \<Rightarrow> if f \<noteq> [] then Some f else None)"

text \<open>
  The body of the inner loop for slot \<open>j\<close> and its key: the front image at \<open>y_pos\<close>,
  which then moves down by the front's height and the row gap, and the back image at
  \<open>y_pos\<close>.
\<close>

definition place_key ::
  "pdf_world \<Rightarrow> layout \<Rightarrow> (string \<rightharpoonup> string) \<Rightarrow> (string \<rightharpoonup> string) \<Rightarrow> nat \<Rightarrow> string \<Rightarrow>
     string + slot" where
  "place_key w lay front_files_dict back_files_dict j key =
     (let front_img_path = front_files_dict key;
          back_img_path = back_files_dict key;
          x = x_pos lay j;
          y = start_y lay
      in case (case present front_img_path of
                 Some f \<Rightarrow>
                   (case place_image w ''front'' (os_path_join (folder lay) f) x y of
                      Inl e \<Rightarrow> Inl e
                    | Inr p \<Rightarrow> Inr ([p], y + (img_h p + spacing_y lay)))
               | None \<Rightarrow> Inr ([], y)) of
           Inl e \<Rightarrow> Inl e
         | Inr (placed, y') \<Rightarrow>
             (case present back_img_path of
                Some b \<Rightarrow>
                  (case place_image w ''back'' (os_path_join (folder lay) b) x y' of
                     Inl e \<Rightarrow> Inl e
                   | Inr p \<Rightarrow> Inr \<lparr>slot_key = key, slot_images = placed @ [p]\<rparr>)
              | None \<Rightarrow> Inr \<lparr>slot_key = key, slot_images = placed\<rparr>))"

text \<open>The first failure of a sequence of steps, or all their results.\<close>

fun sequence :: "('e + 'a) list \<Rightarrow> 'e + 'a list" where
  "sequence [] = Inr []"
| "sequence (x # xs) =
     (case x of
        Inl e \<Rightarrow> Inl e
      | Inr v \<Rightarrow> (case sequence xs of Inl e \<Rightarrow> Inl e | Inr vs \<Rightarrow> Inr (v # vs)))"

text \<open>\<^verbatim>\<open>range(i, n, 3)\<close>, the first index of each page.\<close>

function page_starts :: "nat \<Rightarrow> nat \<Rightarrow> nat list" where
  "page_starts i n = (if i < n then i # page_starts (i + 3) n else [])"
  by pat_completeness auto
termination
  by (relation "measure (\<lambda>(i, n). n - i)") auto

declare page_starts.simps [simp del]

text \<open>\<^verbatim>\<open>for j in range(3)\<close> with its \<^verbatim>\<open>break\<close> at the end of the keys.\<close>

definition page_slots :: "nat \<Rightarrow> nat \<Rightarrow> nat list" where
  "page_slots i n = takeWhile (\<lambda>j. i + j < n) [0, 1, 2]"

definition layout_page ::
  "pdf_world \<Rightarrow> layout \<Rightarrow> (string \<rightharpoonup> string) \<Rightarrow> (string \<rightharpoonup> string) \<Rightarrow> string list \<Rightarrow> nat \<Rightarrow>
     string + page" where
  "layout_page w lay fd bd keys i =
     sequence (map (\<lambda>j. place_key w lay fd bd j (keys ! (i + j))) (page_slots i (length keys)))"

definition layout_pages ::
  "pdf_world \<Rightarrow> layout \<Rightarrow> (string \<rightharpoonup> string) \<Rightarrow> (string \<rightharpoonup> string) \<Rightarrow> string list \<Rightarrow>
     string + page list" where
  "layout_pages w lay fd bd keys =
     sequence (map (layout_page w lay fd bd keys) (page_starts 0 (length keys)))"

record document =
  doc_path :: string
  doc_pages :: "page list"

text \<open>The part of \<^verbatim>\<open>generate_badge_pdf\<close> under its outer handler.\<close>

definition compose :: "pdf_world \<Rightarrow> layout \<Rightarrow> string + document" where
  "compose w lay =
     (case listdir w (folder lay) of
        NoSuchFolder \<Rightarrow>
          Inl (''Badge folder '' @ [CHR 0x27] @ folder lay @ [CHR 0x27] @ '' does not exist.'')
      | ListingFails e \<Rightarrow> Inl e
      | Files files \<Rightarrow>
          let front_files = prefixed_files (front_prefix lay) files;
              back_files = prefixed_files (back_prefix lay) files;
              front_files_dict = files_dict (front_prefix lay) front_files;
              back_files_dict = files_dict (back_prefix lay) back_files;
              keys = all_keys (front_prefix lay) (back_prefix lay) files
          in (case layout_pages w lay front_files_dict back_files_dict keys of
                Inl e \<Rightarrow> Inl e
              | Inr pages \<Rightarrow>
                  (case print_makedirs w PRINT_FOLDER of
                     Some e \<Rightarrow> Inl e
                   | None \<Rightarrow>
                       let output_pdf_path = os_path_join (getcwd w) (out_pdf lay)
                       in (case pdf_output w output_pdf_path of
                             Some e \<Rightarrow> Inl (''Failed to save PDF to '' @ [CHR 0x27] @
                                            output_pdf_path @ [CHR 0x27] @ '': '' @ e)
                           | None \<Rightarrow> Inr \<lparr>doc_path = output_pdf_path, doc_pages = pages\<rparr>))))"

text \<open>
  \<^verbatim>\<open>generate_badge_pdf\<close>: \<open>Inl\<close> is the text of the exception it raises, \<open>Inr\<close> the
  document it wrote.
\<close>

definition generate_badge_pdf :: "pdf_world \<Rightarrow> pdf_config \<Rightarrow> string + document" where
  "generate_badge_pdf w config =
     (case read_layout config of
        Inl e \<Rightarrow> Inl e
      | Inr lay \<Rightarrow>
          (case compose w lay of
             Inl e \<Rightarrow> Inl (''An error occurred during PDF generation: '' @ e)
           | Inr doc \<Rightarrow> Inr doc))"

section \<open>Example inputs\<close>

text \<open>An environment in which every call of the imaging library succeeds.\<close>

definition ok_world :: world where
  "ok_world =
     \<lparr>makedirs = (\<lambda>p. None), image_open = (\<lambda>p. None), photo_open = (\<lambda>p. None),
      photo_resize = (\<lambda>p sz. None), photo_paste = (\<lambda>p pos. None),
      truetype = (\<lambda>p sz. FontLoaded), draw_text = (\<lambda>pos txt p sz col. None),
      image_save = (\<lambda>p. None), log_write = (\<lambda>p. None)\<rparr>"

text \<open>The same environment with a font file that cannot be read.\<close>

definition no_font_world :: world where
  "no_font_world =
     ok_world\<lparr>truetype := (\<lambda>p sz. if p = VStr ''missing.ttf'' then FontIOError ''cannot open resource''
                                 else FontLoaded)\<rparr>"

text \<open>A side template with a font for each text element of both field sets.\<close>

definition template :: "string \<Rightarrow> pydict" where
  "template background =
     map_of
       [(''background_img'', VStr background),
        (''name_char_limit'', VInt 10),
        (''font_name'', VStr ''sans.ttf''), (''name_size'', VInt 40),
        (''font_first_name'', VStr ''sans.ttf''), (''first_name_size'', VInt 36),
        (''font_last_name'', VStr ''sans.ttf''), (''last_name_size'', VInt 36),
        (''font_id'', VStr ''mono.ttf''), (''id_size'', VInt 24),
        (''font_department'', VStr ''sans.ttf''), (''department_size'', VInt 24),
        (''font_position'', VStr ''sans.ttf''), (''position_size'', VInt 24)]"

definition example_preset :: preset where
  "example_preset = [''front'' \<mapsto> template ''front.png'', ''back'' \<mapsto> template ''back.png'']"

definition example_presets :: "string \<rightharpoonup> preset" where
  "example_presets = [''standard'' \<mapsto> example_preset]"

definition example_record :: "string \<Rightarrow> pydict" where
  "example_record name =
     template ''front.png'' ++
     [''name'' \<mapsto> VStr name, ''id'' \<mapsto> VStr ''No. 1023'',
      ''department'' \<mapsto> VStr ''Sales'', ''position'' \<mapsto> VStr ''Clerk'']"

text \<open>A record whose identifier font is the unreadable file.\<close>

definition bad_font_record :: pydict where
  "bad_font_record = example_record ''Ann'' ++ [''font_id'' \<mapsto> VStr ''missing.ttf'']"

text \<open>Spreadsheet rows: a local name, an employee number, and the other five cells.\<close>

definition example_row :: "string \<Rightarrow> string \<Rightarrow> (string \<Rightarrow> cell)" where
  "example_row local_name number =
     map_of
       [(''Local Name'', local_name), (''English Name'', ''Ann Lee''),
        (''Employee Number'', number), (''Department'', ''Sales''), (''Position'', ''Clerk''),
        (''Department_en'', ''Sales''), (''Position_en'', ''Clerk'')]"

text \<open>A row with a blank local name and no English position.\<close>

definition incomplete_row :: "string \<Rightarrow> cell" where
  "incomplete_row =
     map_of
       [(''Local Name'', ''  ''), (''English Name'', ''Ann Lee''),
        (''Employee Number'', ''7''), (''Department'', ''Sales''), (''Position'', ''Clerk''),
        (''Department_en'', ''Sales'')]"

text \<open>Two rows that both carry the employee number \<^verbatim>\<open>1023.0\<close>.\<close>

definition twice_1023 :: dataframe where
  "twice_1023 =
     \<lparr>columns = required_columns,
      rows = [example_row ''Li'' ''1023.0'', example_row ''Wu'' ''1023.0'']\<rparr>"

text \<open>A valid row followed by the incomplete one.\<close>

definition one_incomplete :: dataframe where
  "one_incomplete =
     \<lparr>columns = required_columns, rows = [example_row ''Li'' ''5'', incomplete_row]\<rparr>"

text \<open>A sheet without the two English columns of department and position.\<close>

definition two_columns_short :: dataframe where
  "two_columns_short =
     \<lparr>columns = [''Local Name'', ''English Name'', ''Employee Number'', ''Department'', ''Position''],
      rows = [example_row ''Li'' ''5'']\<rparr>"

text \<open>A template that itself carries a name, and the texts typed into the entries.\<close>

definition named_template :: pydict where
  "named_template = (template ''front.png'')(''name'' \<mapsto> VStr ''Preset Name'')"

definition ascii_upper :: "string \<Rightarrow> string" where
  "ascii_upper s =
     map (\<lambda>c. if 97 \<le> (of_char c :: nat) \<and> (of_char c :: nat) \<le> 122
              then char_of ((of_char c :: nat) - 32) else c) s"

definition example_entries :: entries where
  "example_entries =
     \<lparr>name_entry = '' Li '', id_entry = ''a7'', department_entry = ''Sales'',
      position_entry = ''Clerk'', photo_entry = []\<rparr>"

text \<open>
  A folder of rendered badges with seven keys: fronts for 1 to 6, backs for 1 and 7, and
  a file that is no badge. Every image is 600 by 900 pixels at 300 DPI.
\<close>

definition badge_files :: "string list" where
  "badge_files =
     [''badge_front_3.png'', ''badge_front_1.png'', ''badge_back_7.png'', ''badge_front_2.png'',
      ''notes.txt'', ''badge_front_6.png'', ''badge_front_5.png'', ''badge_back_1.png'',
      ''badge_front_4.png'']"

definition example_pdf_world :: pdf_world where
  "example_pdf_world =
     \<lparr>listdir = (\<lambda>d. if d = ''Badge_output'' then Files badge_files else NoSuchFolder),
      open_info = (\<lambda>p. Inr \<lparr>px_width = 600, px_height = 900, dpi_x = Some 300\<rparr>),
      pdf_image = (\<lambda>p x y w h. None),
      print_makedirs = (\<lambda>d. None),
      getcwd = ''/home/user'',
      pdf_output = (\<lambda>p. None)\<rparr>"

definition example_config :: pdf_config where
  "example_config =
     \<lparr>badge_folder = Some ''Badge_output'',
      badge_front_prefix = Some ''badge_front_'',
      badge_back_prefix = Some ''badge_back_'',
      output_pdf = Some ''print/badges.pdf'',
      group_spacing_x = Some 5,
      group_spacing_y = Some 4,
      paper_width = Some 210,
      paper_height = Some 297,
      start_y_position = Some 10,
      badge_width = Some 60\<rparr>"

definition example_layout :: layout where
  "example_layout =
     \<lparr>folder = ''Badge_output'', front_prefix = ''badge_front_'', back_prefix = ''badge_back_'',
      out_pdf = ''print/badges.pdf'', spacing_x = 5, spacing_y = 4, start_y = 10, width = 60\<rparr>"

text \<open>The document composed from that folder: three pages for seven keys.\<close>

definition badge_at :: "string \<Rightarrow> real \<Rightarrow> real \<Rightarrow> placement" where
  "badge_at path x y = \<lparr>img_path = path, pos_x = x, pos_y = y, img_w = 254 / 5, img_h = 381 / 5\<rparr>"

definition example_document :: document where
  "example_document =
     \<lparr>doc_path = ''/home/user/print/badges.pdf'',
      doc_pages =
        [[\<lparr>slot_key = ''1'',
            slot_images = [badge_at ''Badge_output/badge_front_1.png'' 5 10,
                           badge_at ''Badge_output/badge_back_1.png'' 5 (451 / 5)]\<rparr>,
          \<lparr>slot_key = ''2'', slot_images = [badge_at ''Badge_output/badge_front_2.png'' 70 10]\<rparr>,
          \<lparr>slot_key = ''3'', slot_images = [badge_at ''Badge_output/badge_front_3.png'' 135 10]\<rparr>],
         [\<lparr>slot_key = ''4'', slot_images = [badge_at ''Badge_output/badge_front_4.png'' 5 10]\<rparr>,
          \<lparr>slot_key = ''5'', slot_images = [badge_at ''Badge_output/badge_front_5.png'' 70 10]\<rparr>,
          \<lparr>slot_key = ''6'', slot_images = [badge_at ''Badge_output/badge_front_6.png'' 135 10]\<rparr>],
         [\<lparr>slot_key = ''7'', slot_images = [badge_at ''Badge_output/badge_back_7.png'' 5 10]\<rparr>]]\<rparr>"

section \<open>Properties of the string functions\<close>

lemma dot_not_digit: "\<not> py_isdigit_char CHR ''.''"
  by (simp add: py_isdigit_char_def)

lemma digit_not_space: "py_isdigit_char c \<Longrightarrow> \<not> py_isspace c"
  by (auto simp: py_isdigit_char_def py_isspace_def Let_def)

lemma digits_not_endswith: "py_isdigit d \<Longrightarrow> \<not> endswith d ''.0''"
proof
  assume d: "py_isdigit d" and e: "endswith d ''.0''"
  from e have "drop (length d - 2) d = ''.0''"
    by (simp add: endswith_def numeral_2_eq_2)
  then have "CHR ''.'' \<in> set (drop (length d - 2) d)" by simp
  then have "CHR ''.'' \<in> set d" by (meson in_set_dropD)
  with d show False by (auto simp: py_isdigit_def list_all_iff dot_not_digit)
qed

lemma strip_front: "dropWhile py_isspace (py_strip s) = py_strip s"
proof -
  define u where "u = dropWhile py_isspace s"
  define t where "t = rev (dropWhile py_isspace (rev u))"
  have u: "u = t @ rev (takeWhile py_isspace (rev u))"
    unfolding t_def by (metis rev_append rev_rev_ident takeWhile_dropWhile_id)
  have "dropWhile py_isspace t = t"
  proof (cases t)
    case Nil
    then show ?thesis by simp
  next
    case (Cons a as)
    with u have "hd u = a" and "u \<noteq> []" by (metis append_Cons list.sel(1), auto)
    moreover have "dropWhile py_isspace u = u" by (simp add: u_def)
    ultimately have "\<not> py_isspace a" by (metis dropWhile_eq_self_iff)
    with Cons show ?thesis by simp
  qed
  then show ?thesis by (simp add: py_strip_def t_def u_def)
qed

lemma strip_idem: "py_strip (py_strip s) = py_strip s"
proof -
  have "py_strip (py_strip s) = rev (dropWhile py_isspace (rev (py_strip s)))"
    unfolding py_strip_def [of "py_strip s"] by (simp only: strip_front)
  also have "\<dots> = py_strip s" by (simp add: py_strip_def)
  finally show ?thesis .
qed

lemma dropWhile_none: "\<forall>c\<in>set d. \<not> P c \<Longrightarrow> dropWhile P d = d"
  by (cases d) auto

lemma strip_digits: "py_isdigit d \<Longrightarrow> py_strip d = d"
  by (simp add: py_strip_def py_isdigit_def list_all_iff dropWhile_none digit_not_space)

lemma clean_idem: "clean_employee_id (clean_employee_id s) = clean_employee_id s"
  by (auto simp: clean_employee_id_def digits_not_endswith)

lemma strip_clean_strip: "py_strip (clean_employee_id (py_strip s)) = clean_employee_id (py_strip s)"
  by (simp add: clean_employee_id_def strip_digits strip_idem)

lemma normalize_idem: "normalize_id (normalize_id s) = normalize_id s"
  by (simp add: normalize_id_def strip_clean_strip clean_idem)

lemma clean_strips: "py_isdigit d \<Longrightarrow> clean_employee_id (d @ ''.0'') = d"
  by (simp add: clean_employee_id_def endswith_def)

lemma clean_keeps:
  assumes "\<not> (\<exists>d. s = d @ ''.0'' \<and> py_isdigit d)"
  shows "clean_employee_id s = s"
proof (rule ccontr)
  assume neq: "clean_employee_id s \<noteq> s"
  then have e: "endswith s ''.0''" and d: "py_isdigit (take (length s - 2) s)"
    by (auto simp: clean_employee_id_def split: if_splits)
  from e have "drop (length s - 2) s = ''.0''"
    by (simp add: endswith_def numeral_2_eq_2)
  then have "s = take (length s - 2) s @ ''.0''"
    by (metis append_take_drop_id)
  with d assms show False by blast
qed

section \<open>Properties of the renderer\<close>

lemma underscore_legal: "CHR ''_'' \<notin> set illegal_chars"
  by (simp add: illegal_chars_def)

lemma sanitize_map:
  "sanitize_filename s = map (\<lambda>c. if c \<in> set illegal_chars then CHR ''_'' else c) s"
  by (simp add: sanitize_filename_def illegal_chars_def replace_char_def)

lemma name_for_filename_prefixed: "name_for_filename (''No. '' @ x) = x"
  by (simp add: name_for_filename_def startswith_def)

lemma output_filename_eq: "output_filename sd ident = ''Badge_output/'' @ badge_basename sd ident"
  by (simp add: output_filename_def os_path_join_def OUTPUT_FOLDER_def badge_basename_def startswith_def endswith_def)

lemma name_step_id: "name_step data = Inr data' \<Longrightarrow> data' ''id'' = data ''id''"
  by (auto simp: name_step_def map_add_def split: pyval.splits if_splits)

lemma not_succeeded_report: "\<not> succeeded (report_failure f quiet d)"
  by (cases f) (auto simp: succeeded_def)

lemma saved_report: "saved (report_failure f quiet d) = []"
  by (cases f) auto

lemma save_step_cases:
  "(\<not> succeeded (save_step w sd d quiet) \<and> saved (save_step w sd d quiet) = []) \<or>
   (succeeded (save_step w sd d quiet) \<and>
    (\<exists>ident. get_default d ''id'' (VStr []) = VStr ident \<and>
       saved (save_step w sd d quiet) = [output_filename sd ident]))"
  by (auto simp: save_step_def succeeded_def split: pyval.splits option.splits)

lemma render_record_cases:
  "(\<not> succeeded (render_record w sd d quiet) \<and> saved (render_record w sd d quiet) = []) \<or>
   (succeeded (render_record w sd d quiet) \<and> image_steps w sd d = Inr () \<and>
    (\<exists>ident. get_default d ''id'' (VStr []) = VStr ident \<and>
       saved (render_record w sd d quiet) = [output_filename sd ident]))"
  using save_step_cases [of w sd d quiet]
  by (auto simp: render_record_def not_succeeded_report saved_report split: sum.splits)

lemma generate_badge_cases:
  "(\<not> succeeded (generate_badge w sd data quiet) \<and> saved (generate_badge w sd data quiet) = []) \<or>
   (succeeded (generate_badge w sd data quiet) \<and>
    (\<exists>data' ident. name_step data = Inr data' \<and> image_steps w sd data' = Inr () \<and> 
       get_default data ''id'' (VStr []) = VStr ident \<and>
       saved (generate_badge w sd data quiet) = [output_filename sd ident]))"
proof (cases "makedirs w OUTPUT_FOLDER")
  case (Some e)
  then show ?thesis by (simp add: generate_badge_def succeeded_def)
next
  case None
  show ?thesis
  proof (cases "name_step data")
    case (Inl f)
    with None show ?thesis by (simp add: generate_badge_def not_succeeded_report saved_report)
  next
    case (Inr data')
    then have "get_default data' ''id'' (VStr []) = get_default data ''id'' (VStr [])"
      by (simp add: get_default_def name_step_id)
    with None Inr render_record_cases [of w sd data' quiet] show ?thesis
      by (auto simp: generate_badge_def)
  qed
qed

lemma fonts_step_unavailable:
  "\<exists>key\<in>set keys. font_unavailable w d key \<Longrightarrow> \<exists>f. fonts_step w d keys = Inl f"
proof (induction keys)
  case Nil
  then show ?case by simp
next
  case (Cons k ks)
  show ?case
  proof (cases "font_unavailable w d k")
    case True
    then show ?thesis
      by (auto simp: font_unavailable_def split: option.splits font_outcome.splits)
  next
    case False
    with Cons.prems have "\<exists>key\<in>set ks. font_unavailable w d key" by auto
    with Cons.IH obtain f where "fonts_step w d ks = Inl f" by blast
    then show ?thesis
      by (auto split: option.splits font_outcome.splits)
  qed
qed

lemma image_steps_unavailable:
  assumes "\<exists>key\<in>set (text_elements d). font_unavailable w d key"
  shows "image_steps w sd d \<noteq> Inr ()"
proof -
  from assms obtain f where "fonts_step w d (text_elements d) = Inl f"
    using fonts_step_unavailable by blast
  then show ?thesis
    by (auto simp: image_steps_def and_then_def split: sum.splits)
qed

lemma split_first_last:
  "CHR '' '' \<in> set name \<Longrightarrow> name = split_first name @ '' '' @ split_last name"
proof -
  assume a: "CHR '' '' \<in> set name"
  let ?P = "\<lambda>c. c \<noteq> CHR '' ''"
  from a have "dropWhile ?P name \<noteq> []" by auto
  then obtain c cs where cs: "dropWhile ?P name = c # cs" by (cases "dropWhile ?P name") auto
  with hd_dropWhile [of ?P name] have "c = CHR '' ''" by simp
  with cs have "dropWhile ?P name = '' '' @ drop 1 (dropWhile ?P name)" by simp
  then have "takeWhile ?P name @ '' '' @ drop 1 (dropWhile ?P name) = name"
    by (metis takeWhile_dropWhile_id)
  then show ?thesis by (simp add: split_first_def split_last_def)
qed

lemma split_first_no_space: "CHR '' '' \<notin> set (split_first name)"
  by (auto simp: split_first_def dest: set_takeWhileD)

lemma text_elements_update:
  "text_elements (d ++ m(''text_elements'' \<mapsto> VList (map VStr ks))) = ks"
  by (simp add: text_elements_def comp_def)

section \<open>Properties of the batch\<close>

lemma length_process_rows: "length (process_rows w pre d k rs) = length rs"
  by (induction rs arbitrary: k) auto

lemma process_rows_nth:
  "i < length rs \<Longrightarrow> process_rows w pre d k rs ! i = process_row w pre d (k + i) (rs ! i)"
proof (induction rs arbitrary: k i)
  case Nil
  then show ?case by simp
next
  case (Cons r rs)
  then show ?case by (cases i) auto
qed

lemma missing_fields_filter:
  "missing_fields row = filter (\<lambda>c. is_missing (row c)) required_columns"
  by (simp add: missing_fields_def required_columns_def)

lemma process_row_missing:
  "missing_fields row \<noteq> [] \<Longrightarrow>
   process_row w pre dups index row =
     \<lparr>row_errors = [missing_fields_msg index (missing_fields row)], row_saved = []\<rparr>"
  by (simp add: process_row_def)

lemma task_rows:
  "missing_columns df = [] \<Longrightarrow> presets preset_name = Some pre \<Longrightarrow>
   batch_rows (task w presets preset_name path df) =
     process_rows w pre (batch_duplicates df) 0 (rows df)"
  by (simp add: task_def Let_def split: prod.splits)

lemma task_log_errors:
  "missing_columns df = [] \<Longrightarrow> presets preset_name = Some pre \<Longrightarrow>
   log_write w path = None \<Longrightarrow> batch_errors w pre df \<noteq> [] \<Longrightarrow>
   batch_log (task w presets preset_name path df) = Some (batch_errors w pre df)"
  by (simp add: task_def Let_def write_errors_to_log_def batch_errors_def split: prod.splits)

lemma task_log:
  assumes "missing_columns df = []" and "presets preset_name = Some pre"
    and "log_write w path = None" and e: "e \<in> set (row_errors r)"
    and r: "r \<in> set (batch_rows (task w presets preset_name path df))"
  shows "\<exists>lg. batch_log (task w presets preset_name path df) = Some lg \<and> e \<in> set lg"
proof -
  from assms have "r \<in> set (process_rows w pre (batch_duplicates df) 0 (rows df))"
    by (simp add: task_rows)
  with e have "e \<in> set (batch_errors w pre df)"
    by (auto simp: batch_errors_def)
  moreover from this have "batch_errors w pre df \<noteq> []" by auto
  ultimately show ?thesis using assms task_log_errors by blast
qed

lemma task_missing_columns:
  "missing_columns df \<noteq> [] \<Longrightarrow>
   task w presets preset_name path df =
     \<lparr>batch_queued = ShowError ''Error'' (missing_columns_msg (missing_columns df)) #
        snd (write_errors_to_log w [missing_columns_msg (missing_columns df)] path),
      batch_log = fst (write_errors_to_log w [missing_columns_msg (missing_columns df)] path),
      batch_saved = [], batch_rows = []\<rparr>"
  by (simp add: task_def Let_def split: prod.splits)

lemma dom_user_input:
  "dom (user_input upper es) = {''name'', ''id'', ''department'', ''position''}"
  by (auto simp: user_input_def)

lemma photo_not_input: "''photo_img'' \<notin> dom (user_input upper es)"
  by (simp add: dom_user_input)

section \<open>Properties of the compositor\<close>

lemma set_prefixed_files: "set (prefixed_files p files) = {f \<in> set files. startswith f p}"
  by (auto simp: prefixed_files_def)

lemma all_keys_sorted: "sorted (all_keys fp bp files)"
  by (simp add: all_keys_def)

lemma all_keys_distinct: "distinct (all_keys fp bp files)"
  by (simp add: all_keys_def)

lemma set_all_keys:
  "set (all_keys fp bp files) =
     file_key fp ` {f \<in> set files. startswith f fp} \<union> file_key bp ` {f \<in> set files. startswith f bp}"
  by (simp add: all_keys_def set_prefixed_files)

lemma all_keys_set_cong:
  assumes "set files' = set files"
  shows "all_keys fp bp files' = all_keys fp bp files"
proof (rule sorted_distinct_set_unique)
  show "set (all_keys fp bp files') = set (all_keys fp bp files)"
    by (simp add: set_all_keys assms)
qed (simp_all add: all_keys_sorted all_keys_distinct)

lemma page_starts_eq: "page_starts i n = map (\<lambda>p. i + 3 * p) [0..<(n - i + 2) div 3]"
proof (induction i n rule: page_starts.induct)
  case (1 i n)
  show ?case
  proof (cases "i < n")
    case False
    then have "(n - i + 2) div 3 = 0" by arith
    with False show ?thesis by (subst page_starts.simps) simp
  next
    case True
    then have m: "(n - i + 2) div 3 = Suc ((n - (i + 3) + 2) div 3)" by arith
    have "page_starts i n = i # page_starts (i + 3) n"
      using True by (subst page_starts.simps) simp
    also have "\<dots> = i # map (\<lambda>p. i + 3 + 3 * p) [0..<(n - (i + 3) + 2) div 3]"
      using 1 [OF True] by simp
    also have "\<dots> = map (\<lambda>p. i + 3 * p) [0..<Suc ((n - (i + 3) + 2) div 3)]"
      by (simp add: map_upt_Suc del: upt_Suc)
    finally show ?thesis by (simp only: m)
  qed
qed

lemma length_page_starts: "length (page_starts 0 n) = (n + 2) div 3"
  by (simp add: page_starts_eq)

lemma page_slots_eq: "page_slots i n = [0..<min 3 (n - i)]"
proof -
  consider "n - i = 0" | "n - i = 1" | "n - i = 2" | "3 \<le> n - i" by arith
  then show ?thesis
  proof cases
    case 1 then show ?thesis by (simp add: page_slots_def)
  next
    case 2 then have "i < n" "\<not> i + 1 < n" by arith+
    with 2 show ?thesis by (simp add: page_slots_def)
  next
    case 3 then have "i < n" "i + 1 < n" "\<not> i + 2 < n" by arith+
    with 3 show ?thesis by (simp add: page_slots_def upt_rec)
  next
    case 4 then have "i < n" "i + 1 < n" "i + 2 < n" by arith+
    moreover from 4 have "min 3 (n - i) = 3" by simp
    ultimately show ?thesis by (simp add: page_slots_def upt_rec)
  qed
qed

lemma sequence_map_Inr: "sequence (map Inr vs) = Inr vs"
  by (induction vs) auto

lemma sequence_InrD: "sequence xs = Inr vs \<Longrightarrow> xs = map Inr vs"
proof (induction xs arbitrary: vs)
  case Nil
  then show ?case by simp
next
  case (Cons x xs)
  from Cons.prems obtain v vs' where x: "x = Inr v" and s: "sequence xs = Inr vs'"
    and vs: "vs = v # vs'"
    by (auto split: sum.splits)
  from Cons.IH [OF s] x vs show ?case by simp
qed

lemma place_image_Inr:
  "place_image w which path x y = Inr p \<Longrightarrow> img_path p = path \<and> pos_x p = x \<and> pos_y p = y"
  by (auto simp: place_image_def split: sum.splits option.splits prod.splits)

lemma map_upt_eq_map_InrD:
  assumes "map f [0..<m] = map Inr vs"
  shows "length vs = m" and "j < m \<Longrightarrow> f j = Inr (vs ! j)"
proof -
  from assms have "length (map f [0..<m]) = length (map Inr vs)" by simp
  then show l: "length vs = m" by simp
  assume j: "j < m"
  from assms have "map f [0..<m] ! j = map Inr vs ! j" by simp
  with j l show "f j = Inr (vs ! j)" by simp
qed

lemma layout_page_slots:
  assumes "layout_page w lay fd bd ks i = Inr page"
  shows "length page = min 3 (length ks - i)"
    and "j < length page \<Longrightarrow> place_key w lay fd bd j (ks ! (i + j)) = Inr (page ! j)"
proof -
  from assms have m: "map (\<lambda>j. place_key w lay fd bd j (ks ! (i + j))) [0..<min 3 (length ks - i)] =
      map Inr page"
    by (simp add: layout_page_def page_slots_eq sequence_InrD)
  from map_upt_eq_map_InrD(1) [OF m] show l: "length page = min 3 (length ks - i)" .
  assume "j < length page"
  with l have "j < min 3 (length ks - i)" by simp
  from map_upt_eq_map_InrD(2) [OF m this]
  show "place_key w lay fd bd j (ks ! (i + j)) = Inr (page ! j)" .
qed

lemma layout_pages_pages:
  assumes "layout_pages w lay fd bd ks = Inr pages"
  shows "length pages = (length ks + 2) div 3"
    and "p < length pages \<Longrightarrow> layout_page w lay fd bd ks (3 * p) = Inr (pages ! p)"
proof -
  from assms have "map (layout_page w lay fd bd ks) (page_starts 0 (length ks)) = map Inr pages"
    by (simp add: layout_pages_def sequence_InrD)
  then have m: "map (\<lambda>p. layout_page w lay fd bd ks (3 * p)) [0..<(length ks + 2) div 3] =
      map Inr pages"
    by (simp add: page_starts_eq comp_def)
  from map_upt_eq_map_InrD(1) [OF m] show l: "length pages = (length ks + 2) div 3" .
  assume "p < length pages"
  with l have "p < (length ks + 2) div 3" by simp
  from map_upt_eq_map_InrD(2) [OF m this]
  show "layout_page w lay fd bd ks (3 * p) = Inr (pages ! p)" .
qed

lemma place_key_Inr:
  assumes "place_key w lay fd bd j key = Inr s"
  shows "slot_key s = key" and "img \<in> set (slot_images s) \<Longrightarrow> pos_x img = x_pos lay j"
  using assms
  by (auto simp: place_key_def Let_def split: option.splits sum.splits prod.splits
      dest: place_image_Inr)

lemma page_keys:
  assumes "layout_page w lay fd bd ks i = Inr page"
  shows "map slot_key page = take 3 (drop i ks)"
proof (rule nth_equalityI)
  from layout_page_slots(1) [OF assms]
  show l: "length (map slot_key page) = length (take 3 (drop i ks))" by simp
  fix j
  assume "j < length (map slot_key page)"
  then have j: "j < length page" by simp
  from layout_page_slots(2) [OF assms j] have "slot_key (page ! j) = ks ! (i + j)"
    by (rule place_key_Inr(1))
  moreover from j layout_page_slots(1) [OF assms] have "j < 3" "i + j < length ks" by arith+
  ultimately show "map slot_key page ! j = take 3 (drop i ks) ! j"
    using j by simp
qed

lemma concat_chunks:
  "length xss = (length ks + 2) div 3 \<Longrightarrow>
   (\<And>p. p < length xss \<Longrightarrow> xss ! p = take 3 (drop (3 * p) ks)) \<Longrightarrow>
   concat xss = ks"
proof (induction xss arbitrary: ks)
  case Nil
  then have "(length ks + 2) div 3 = 0" by simp
  then have "length ks = 0" by arith
  then show ?case by simp
next
  case (Cons x xs)
  from Cons.prems(2) [of 0] have x: "x = take 3 ks" by simp
  from Cons.prems(1) have "Suc (length xs) = (length ks + 2) div 3" by simp
  then have "length xs = (length ks - 3 + 2) div 3" by arith
  then have "length xs = (length (drop 3 ks) + 2) div 3" by simp
  moreover have "xs ! p = take 3 (drop (3 * p) (drop 3 ks))" if "p < length xs" for p
    using Cons.prems(2) [of "Suc p"] that by (simp add: add.commute)
  ultimately have "concat xs = drop 3 ks" by (rule Cons.IH)
  with x show ?case by simp
qed

lemma pages_keys:
  assumes "layout_pages w lay fd bd ks = Inr pages"
  shows "map slot_key (concat pages) = ks"
proof -
  have "concat (map (map slot_key) pages) = ks"
  proof (rule concat_chunks)
    from layout_pages_pages(1) [OF assms]
    show "length (map (map slot_key) pages) = (length ks + 2) div 3" by simp
    fix p
    assume "p < length (map (map slot_key) pages)"
    then have p: "p < length pages" by simp
    from page_keys [OF layout_pages_pages(2) [OF assms p]] p
    show "map (map slot_key) pages ! p = take 3 (drop (3 * p) ks)" by simp
  qed
  then show ?thesis by (simp add: map_concat)
qed

lemma compose_pages:
  assumes "compose w lay = Inr doc" and "listdir w (folder lay) = Files files"
  shows "layout_pages w lay
           (files_dict (front_prefix lay) (prefixed_files (front_prefix lay) files))
           (files_dict (back_prefix lay) (prefixed_files (back_prefix lay) files))
           (all_keys (front_prefix lay) (back_prefix lay) files) = Inr (doc_pages doc)"
  using assms
  by (auto simp: compose_def Let_def split: sum.splits option.splits)

lemma generate_badge_pdf_compose:
  "generate_badge_pdf w config = Inr doc \<Longrightarrow> read_layout config = Inr lay \<Longrightarrow>
   compose w lay = Inr doc"
  by (auto simp: generate_badge_pdf_def split: sum.splits)

lemma lookup_Inr: "lookup v key k = Inr r \<Longrightarrow> \<exists>x. v = Some x \<and> k x = Inr r"
  by (cases v) (simp_all add: lookup_def)

lemma read_layout_Inr:
  assumes "read_layout config = Inr lay"
  shows "badge_folder config = Some (folder lay)"
    and "badge_front_prefix config = Some (front_prefix lay)"
    and "badge_back_prefix config = Some (back_prefix lay)"
    and "group_spacing_x config = Some (spacing_x lay)"
    and "group_spacing_y config = Some (spacing_y lay)"
    and "start_y_position config = Some (start_y lay)"
    and "badge_width config = Some (width lay)"
  using assms unfolding read_layout_def
  by (auto dest!: lookup_Inr)

lemma slot_of_document:
  assumes "compose w lay = Inr doc" and "listdir w (folder lay) = Files files"
    and p: "p < length (doc_pages doc)" and j: "j < length (doc_pages doc ! p)"
  shows "place_key w lay
           (files_dict (front_prefix lay) (prefixed_files (front_prefix lay) files))
           (files_dict (back_prefix lay) (prefixed_files (back_prefix lay) files))
           j (all_keys (front_prefix lay) (back_prefix lay) files ! (3 * p + j)) =
         Inr (doc_pages doc ! p ! j)"
proof -
  note pages = compose_pages [OF assms(1,2)]
  note page = layout_pages_pages(2) [OF pages p]
  from layout_page_slots(2) [OF page j] show ?thesis .
qed

lemma place_key_front:
  assumes "place_key w lay fd bd j key = Inr s" and "present (fd key) = Some f"
  shows "\<exists>front. slot_images s \<noteq> [] \<and> hd (slot_images s) = front \<and>
           img_path front = os_path_join (folder lay) f \<and>
           pos_x front = x_pos lay j \<and> pos_y front = start_y lay \<and>
           (\<forall>b. present (bd key) = Some b \<longrightarrow>
              (\<exists>back. slot_images s = [front, back] \<and>
                 img_path back = os_path_join (folder lay) b \<and>
                 pos_x back = x_pos lay j \<and>
                 pos_y back = start_y lay + img_h front + spacing_y lay)) \<and>
           (present (bd key) = None \<longrightarrow> slot_images s = [front])"
  using assms
  by (auto simp: place_key_def Let_def split: option.splits sum.splits prod.splits
      dest!: place_image_Inr)

lemma place_key_no_front:
  assumes "place_key w lay fd bd j key = Inr s" and "present (fd key) = None"
  shows "(\<forall>b. present (bd key) = Some b \<longrightarrow>
            (\<exists>back. slot_images s = [back] \<and>
               img_path back = os_path_join (folder lay) b \<and>
               pos_x back = x_pos lay j \<and> pos_y back = start_y lay)) \<and>
         (present (bd key) = None \<longrightarrow> slot_images s = [])"
  using assms
  by (auto simp: place_key_def Let_def split: option.splits sum.splits prod.splits
      dest!: place_image_Inr)

lemma example_composed:
  "generate_badge_pdf example_pdf_world example_config = Inr example_document"
  by code_simp

lemma example_read_layout: "read_layout example_config = Inr example_layout"
  by code_simp

lemma example_listing: "listdir example_pdf_world (folder example_layout) = Files badge_files"
  by code_simp

lemma example_keys:
  "[''1'', ''2'', ''3'', ''4'', ''5'', ''6'', ''7''] =
     all_keys (front_prefix example_layout) (back_prefix example_layout) badge_files"
  by code_simp

section \<open>Identifier normalization is idempotent\<close>

text \<open>
  C9. \<^verbatim>\<open>clean_employee_id\<close> is idempotent, and so is the whole normalization of the
  batch (trim, then clean). \<^verbatim>\<open>1023.0\<close> and \<^verbatim>\<open>1023\<close> both normalize to \<^verbatim>\<open>1023\<close>. The
  suffix \<^verbatim>\<open>.0\<close> is removed exactly from the strings that are digits followed by \<^verbatim>\<open>.0\<close>;
  every other string is returned unchanged.
\<close>

theorem clean_employee_id_idempotent:
  "clean_employee_id (clean_employee_id s) = clean_employee_id s \<and>
   normalize_id (normalize_id s) = normalize_id s \<and>
   clean_employee_id ''1023.0'' = ''1023'' \<and>
   clean_employee_id ''1023'' = ''1023'' \<and>
   (\<forall>d. s = d @ ''.0'' \<and> py_isdigit d \<longrightarrow> clean_employee_id s = d) \<and>
   ((\<nexists>d. s = d @ ''.0'' \<and> py_isdigit d) \<longrightarrow> clean_employee_id s = s)"
proof -
  have a: "clean_employee_id ''1023.0'' = ''1023''"
    by (simp add: clean_employee_id_def endswith_def py_isdigit_def py_isdigit_char_def)
  have b: "clean_employee_id ''1023'' = ''1023''"
    by (simp add: clean_employee_id_def endswith_def py_isdigit_def py_isdigit_char_def)
  show ?thesis
    using a b clean_idem normalize_idem clean_strips clean_keeps by blast
qed

theorem clean_employee_id_idempotent_witness:
  "(''77.0'' = ''77'' @ ''.0'' \<and> py_isdigit ''77'') \<and>
   clean_employee_id ''77.0'' = ''77'' \<and>
   (\<nexists>d. ''A7.0'' = d @ ''.0'' \<and> py_isdigit d) \<and>
   clean_employee_id ''A7.0'' = ''A7.0'' \<and>
   clean_employee_id (clean_employee_id ''77.0'') = clean_employee_id ''77.0''"
proof -
  have d: "''77.0'' = ''77'' @ ''.0'' \<and> py_isdigit ''77''"
    by (simp add: py_isdigit_def py_isdigit_char_def)
  have n: "\<nexists>d. ''A7.0'' = d @ ''.0'' \<and> py_isdigit d"
    by (auto simp: py_isdigit_def py_isdigit_char_def append_eq_Cons_conv Cons_eq_append_conv)
  from clean_employee_id_idempotent [of "''77.0''"] d
  have 1: "clean_employee_id ''77.0'' = ''77''" by blast
  from clean_employee_id_idempotent [of "''A7.0''"] n
  have 2: "clean_employee_id ''A7.0'' = ''A7.0''" by blast
  from clean_employee_id_idempotent [of "''77.0''"]
  have 3: "clean_employee_id (clean_employee_id ''77.0'') = clean_employee_id ''77.0''" by blast
  from d n 1 2 3 show ?thesis by blast
qed

section \<open>Output naming\<close>

text \<open>
  C3, as amended. \<^verbatim>\<open>sanitize_filename\<close> replaces every illegal character by an
  underscore and keeps every other character in its place. For an identifier that begins
  with \<^verbatim>\<open>No.\<close> and a space, as both callers format it, the four characters of that
  prefix are dropped before sanitizing; an identifier that does not begin with \<^verbatim>\<open>No.\<close>
  is sanitized whole. A successful render saves exactly the file
  \<^verbatim>\<open>badge_{side}_{safeId}.png\<close> in the output folder.
\<close>

theorem output_naming:
  "sanitize_filename s = map (\<lambda>c. if c \<in> set illegal_chars then CHR ''_'' else c) s \<and>
   badge_basename sd (''No. '' @ x) = ''badge_'' @ side_name sd @ ''_'' @ sanitize_filename x @ ''.png'' \<and>
   (\<not> startswith eid ''No.'' \<longrightarrow>
      badge_basename sd eid = ''badge_'' @ side_name sd @ ''_'' @ sanitize_filename eid @ ''.png'') \<and>
   (succeeded (generate_badge w sd data quiet) \<longrightarrow>
      (\<exists>eid. get_default data ''id'' (VStr []) = VStr eid \<and>
         saved (generate_badge w sd data quiet) = [''Badge_output/'' @ badge_basename sd eid]))"
proof -
  have 1: "badge_basename sd (''No. '' @ x) =
      ''badge_'' @ side_name sd @ ''_'' @ sanitize_filename x @ ''.png''"
    by (simp only: badge_basename_def name_for_filename_prefixed)
  have 2: "\<not> startswith eid ''No.'' \<longrightarrow>
      badge_basename sd eid = ''badge_'' @ side_name sd @ ''_'' @ sanitize_filename eid @ ''.png''"
    by (simp add: badge_basename_def name_for_filename_def)
  have 3: "succeeded (generate_badge w sd data quiet) \<longrightarrow>
      (\<exists>eid. get_default data ''id'' (VStr []) = VStr eid \<and>
         saved (generate_badge w sd data quiet) = [''Badge_output/'' @ badge_basename sd eid])"
    using generate_badge_cases [of w sd data quiet] by (auto simp: output_filename_eq)
  from sanitize_map 1 2 3 show ?thesis by blast
qed

theorem output_naming_witness:
  "succeeded (generate_badge ok_world Front (example_record ''Ann'') True) \<and>
   saved (generate_badge ok_world Front (example_record ''Ann'') True) =
     [''Badge_output/badge_front_1023.png''] \<and>
   \<not> startswith ''A/7:B'' ''No.'' \<and>
   badge_basename Back ''A/7:B'' = ''badge_back_A_7_B.png''"
proof -
  let ?r = "generate_badge ok_world Front (example_record ''Ann'') True"
  have ok: "succeeded ?r" by code_simp
  have eid: "get_default (example_record ''Ann'') ''id'' (VStr []) = VStr ''No. 1023''"
    by code_simp
  have n: "\<not> startswith ''A/7:B'' ''No.''" by code_simp
  note at_front = output_naming [where sd = Front and x = "''1023''" and w = ok_world
      and data = "example_record ''Ann''" and quiet = True]
  note at_back = output_naming [where sd = Back and eid = "''A/7:B''"]
  from at_front ok eid have "saved ?r = [''Badge_output/'' @ badge_basename Front (''No. '' @ ''1023'')]"
    by auto
  also from at_front have "\<dots> = [''Badge_output/badge_front_1023.png'']"
    by (simp add: illegal_chars_def)
  finally have 1: "saved ?r = [''Badge_output/badge_front_1023.png'']" .
  from at_back n have "badge_basename Back ''A/7:B'' =
      ''badge_'' @ side_name Back @ ''_'' @ sanitize_filename ''A/7:B'' @ ''.png''"
    by blast
  also from at_back have "\<dots> = ''badge_back_A_7_B.png''"
    by (simp add: illegal_chars_def)
  finally have 2: "badge_basename Back ''A/7:B'' = ''badge_back_A_7_B.png''" .
  from ok 1 n 2 show ?thesis by blast
qed

text \<open>
  The claim as written strips the three characters \<^verbatim>\<open>No.\<close>; on \<^verbatim>\<open>No. 1023\<close> that
  leaves a leading space in the file name, and the code's name has none.
\<close>

theorem output_naming_counterexample:
  "badge_basename Front ''No. 1023'' \<noteq> spec_basename Front ''No. 1023''"
  by (simp add: badge_basename_def spec_basename_def spec_safe_id_def spec_strip_prefix_def
      sanitize_map name_for_filename_def startswith_def illegal_chars_def)

section \<open>One file or none\<close>

text \<open>
  C4. When the font of some text element of the active field set cannot be loaded, the
  render fails and saves no file, whatever the other elements are. In general a call of
  the renderer saves exactly one image file when it succeeds and none when it fails.
\<close>

theorem render_writes_one_or_none:
  "((\<exists>data'. name_step data = Inr data' \<and>
        (\<exists>key\<in>set (text_elements data'). font_unavailable w data' key)) \<longrightarrow>
      \<not> succeeded (generate_badge w sd data quiet) \<and> saved (generate_badge w sd data quiet) = []) \<and>
   (succeeded (generate_badge w sd data quiet) \<longrightarrow> length (saved (generate_badge w sd data quiet)) = 1) \<and>
   (\<not> succeeded (generate_badge w sd data quiet) \<longrightarrow> saved (generate_badge w sd data quiet) = [])"
proof -
  let ?r = "generate_badge w sd data quiet"
  have 1: "\<not> succeeded ?r \<and> saved ?r = []"
    if "\<exists>data'. name_step data = Inr data' \<and>
        (\<exists>key\<in>set (text_elements data'). font_unavailable w data' key)"
  proof -
    from that obtain data' where d: "name_step data = Inr data'"
      and "\<exists>key\<in>set (text_elements data'). font_unavailable w data' key" by blast
    then have "image_steps w sd data' \<noteq> Inr ()" by (rule_tac image_steps_unavailable)
    with d generate_badge_cases [of w sd data quiet] show ?thesis by auto
  qed
  have 2: "succeeded ?r \<longrightarrow> length (saved ?r) = 1"
    using generate_badge_cases [of w sd data quiet] by auto
  have 3: "\<not> succeeded ?r \<longrightarrow> saved ?r = []"
    using generate_badge_cases [of w sd data quiet] by auto
  from 1 2 3 show ?thesis by blast
qed

theorem render_writes_one_or_none_witness:
  "(case name_step bad_font_record of
      Inl f \<Rightarrow> False
    | Inr data' \<Rightarrow> list_ex (font_unavailable no_font_world data') (text_elements data')) \<and>
   \<not> succeeded (generate_badge no_font_world Front bad_font_record True) \<and>
   saved (generate_badge no_font_world Front bad_font_record True) = [] \<and>
   raised (generate_badge no_font_world Front bad_font_record True) =
     Some (Exception ''Font not found: cannot open resource'') \<and>
   succeeded (generate_badge ok_world Front bad_font_record True) \<and>
   length (saved (generate_badge ok_world Front bad_font_record True)) = 1"
proof -
  have h: "case name_step bad_font_record of
      Inl f \<Rightarrow> False
    | Inr data' \<Rightarrow> list_ex (font_unavailable no_font_world data') (text_elements data')"
    by code_simp
  then have "\<exists>data'. name_step bad_font_record = Inr data' \<and>
        (\<exists>key\<in>set (text_elements data'). font_unavailable no_font_world data' key)"
    by (auto simp: list_ex_iff split: sum.splits)
  with render_writes_one_or_none [of bad_font_record no_font_world Front True]
  have 1: "\<not> succeeded (generate_badge no_font_world Front bad_font_record True) \<and>
      saved (generate_badge no_font_world Front bad_font_record True) = []"
    by blast
  have 2: "raised (generate_badge no_font_world Front bad_font_record True) =
     Some (Exception ''Font not found: cannot open resource'')"
    by code_simp
  have ok: "succeeded (generate_badge ok_world Front bad_font_record True)" by code_simp
  with render_writes_one_or_none [of bad_font_record ok_world Front True]
  have 3: "length (saved (generate_badge ok_world Front bad_font_record True)) = 1" by blast
  from h 1 2 ok 3 show ?thesis by blast
qed

section \<open>Names longer than the limit\<close>

text \<open>
  C2. Take a render whose output folder can be created and whose record has a string
  name strictly longer than the template's character limit. If the name contains a space,
  it is split at its first space into first and last name, and the record is rendered
  with the five text elements first name, last name, id, department and position. If it
  contains no space, the render fails with the name-too-long error (raised in the batch,
  shown in an error box otherwise) and saves no file.
\<close>

theorem name_overflow:
  assumes "makedirs w OUTPUT_FOLDER = None"
    and "get_default data ''name'' (VStr []) = VStr name"
    and "get_default data ''name_char_limit'' (VInt 10) = VInt char_limit"
    and "int (length name) > char_limit"
  shows
   "(CHR '' '' \<in> set name \<longrightarrow>
       generate_badge w sd data quiet =
         render_record w sd
           (data ++ [''first_name'' \<mapsto> VStr (split_first name),
                     ''last_name'' \<mapsto> VStr (split_last name),
                     ''text_elements'' \<mapsto> VList (map VStr split_elements)]) quiet \<and>
       text_elements
           (data ++ [''first_name'' \<mapsto> VStr (split_first name),
                     ''last_name'' \<mapsto> VStr (split_last name),
                     ''text_elements'' \<mapsto> VList (map VStr split_elements)]) =
         [''first_name'', ''last_name'', ''id'', ''department'', ''position''] \<and>
       name = split_first name @ '' '' @ split_last name \<and>
       CHR '' '' \<notin> set (split_first name)) \<and>
    (CHR '' '' \<notin> set name \<longrightarrow>
       saved (generate_badge w sd data quiet) = [] \<and>
       \<not> succeeded (generate_badge w sd data quiet) \<and>
       (quiet \<longrightarrow> raised (generate_badge w sd data quiet) = Some (Exception (name_too_long_msg name))) \<and>
       (\<not> quiet \<longrightarrow> raised (generate_badge w sd data quiet) = None \<and>
          queued (generate_badge w sd data quiet) = [ShowError ''Error'' (name_too_long_msg name)]))"
proof (cases "CHR '' '' \<in> set name")
  case True
  with assms have "name_step data =
      Inr (data ++ [''first_name'' \<mapsto> VStr (split_first name),
                    ''last_name'' \<mapsto> VStr (split_last name),
                    ''text_elements'' \<mapsto> VList (map VStr split_elements)])"
    by (simp add: name_step_def)
  with assms(1) have "generate_badge w sd data quiet =
         render_record w sd
           (data ++ [''first_name'' \<mapsto> VStr (split_first name),
                     ''last_name'' \<mapsto> VStr (split_last name),
                     ''text_elements'' \<mapsto> VList (map VStr split_elements)]) quiet"
    by (simp add: generate_badge_def)
  moreover have "text_elements
           (data ++ [''first_name'' \<mapsto> VStr (split_first name),
                     ''last_name'' \<mapsto> VStr (split_last name),
                     ''text_elements'' \<mapsto> VList (map VStr split_elements)]) =
         [''first_name'', ''last_name'', ''id'', ''department'', ''position'']"
    by (simp only: text_elements_update) (simp add: split_elements_def)
  ultimately show ?thesis
    using True split_first_last [of name] split_first_no_space [of name] by blast
next
  case False
  with assms have "name_step data = Inl (Caught (name_too_long_msg name))"
    by (simp add: name_step_def)
  with assms(1) have "generate_badge w sd data quiet =
      report_failure (Caught (name_too_long_msg name)) quiet data"
    by (simp add: generate_badge_def)
  with False show ?thesis by (cases quiet) (simp_all add: succeeded_def)
qed


theorem name_overflow_witness:
  "makedirs ok_world OUTPUT_FOLDER = None \<and>
   get_default (example_record ''Jonathan Smith'') ''name'' (VStr []) = VStr ''Jonathan Smith'' \<and>
   get_default (example_record ''Jonathan Smith'') ''name_char_limit'' (VInt 10) = VInt 10 \<and>
   int (length ''Jonathan Smith'') > 10 \<and>
   CHR '' '' \<in> set ''Jonathan Smith'' \<and>
   split_first ''Jonathan Smith'' = ''Jonathan'' \<and>
   split_last ''Jonathan Smith'' = ''Smith'' \<and>
   generate_badge ok_world Front (example_record ''Jonathan Smith'') True =
     render_record ok_world Front
       (example_record ''Jonathan Smith'' ++
          [''first_name'' \<mapsto> VStr ''Jonathan'', ''last_name'' \<mapsto> VStr ''Smith'',
           ''text_elements'' \<mapsto> VList (map VStr split_elements)]) True \<and>
   get_default (example_record ''Jonathansmith'') ''name'' (VStr []) = VStr ''Jonathansmith'' \<and>
   CHR '' '' \<notin> set ''Jonathansmith'' \<and>
   saved (generate_badge ok_world Front (example_record ''Jonathansmith'') True) = [] \<and>
   raised (generate_badge ok_world Front (example_record ''Jonathansmith'') True) =
     Some (Exception (name_too_long_msg ''Jonathansmith''))"
proof -
  have m: "makedirs ok_world OUTPUT_FOLDER = None" by code_simp
  have n1: "get_default (example_record ''Jonathan Smith'') ''name'' (VStr []) = VStr ''Jonathan Smith''"
    by code_simp
  have l1: "get_default (example_record ''Jonathan Smith'') ''name_char_limit'' (VInt 10) = VInt 10"
    by code_simp
  have g1: "int (length ''Jonathan Smith'') > 10" by simp
  have s1: "CHR '' '' \<in> set ''Jonathan Smith''" by simp
  have f1: "split_first ''Jonathan Smith'' = ''Jonathan''" by code_simp
  have f2: "split_last ''Jonathan Smith'' = ''Smith''" by code_simp
  have n2: "get_default (example_record ''Jonathansmith'') ''name'' (VStr []) = VStr ''Jonathansmith''"
    by code_simp
  have l2: "get_default (example_record ''Jonathansmith'') ''name_char_limit'' (VInt 10) = VInt 10"
    by code_simp
  have g2: "int (length ''Jonathansmith'') > 10" by simp
  have s2: "CHR '' '' \<notin> set ''Jonathansmith''" by simp
  note split = name_overflow [OF m n1 l1 g1, of Front True, THEN conjunct1, THEN mp, OF s1]
  note too_long = name_overflow [OF m n2 l2 g2, of Front True, THEN conjunct2, THEN mp, OF s2]
  from split have 1: "generate_badge ok_world Front (example_record ''Jonathan Smith'') True =
     render_record ok_world Front
       (example_record ''Jonathan Smith'' ++
          [''first_name'' \<mapsto> VStr (split_first ''Jonathan Smith''),
           ''last_name'' \<mapsto> VStr (split_last ''Jonathan Smith''),
           ''text_elements'' \<mapsto> VList (map VStr split_elements)]) True"
    by (rule conjunct1)
  from too_long have 2: "saved (generate_badge ok_world Front (example_record ''Jonathansmith'') True) = []"
    by (rule conjunct1)
  from too_long have 3: "raised (generate_badge ok_world Front (example_record ''Jonathansmith'') True) =
     Some (Exception (name_too_long_msg ''Jonathansmith''))"
    by simp
  from 1 have 4: "generate_badge ok_world Front (example_record ''Jonathan Smith'') True =
     render_record ok_world Front
       (example_record ''Jonathan Smith'' ++
          [''first_name'' \<mapsto> VStr ''Jonathan'', ''last_name'' \<mapsto> VStr ''Smith'',
           ''text_elements'' \<mapsto> VList (map VStr split_elements)]) True"
    by (simp only: f1 f2)
  show ?thesis
    by (intro conjI) (fact m n1 l1 g1 s1 f1 f2 4 n2 s2 2 3)+
qed

section \<open>Missing fields of a row\<close>

text \<open>
  C5. A cell is missing exactly when it is null or empty after trimming. The seven
  required fields of a row are checked one by one, and the names of all missing ones, in
  the order of the columns, go into one message for the row. A row with a missing field
  yields that single message and no badge; in a batch that reaches its rows it is the
  row's only entry, and it is in the log when the log can be written.
\<close>

theorem row_missing_fields:
  "(is_missing v \<longleftrightarrow> v = None \<or> (\<exists>s. v = Some s \<and> py_strip s = [])) \<and>
   missing_fields row = filter (\<lambda>c. is_missing (row c)) required_columns \<and>
   (missing_fields row \<noteq> [] \<longrightarrow>
      process_row w pre dups index row =
        \<lparr>row_errors = [''Row '' @ show_nat (index + 2) @ '': Missing fields - '' @
                        join '', '' (missing_fields row) @ ''.''],
         row_saved = []\<rparr>) \<and>
   (missing_columns df = [] \<and> presets preset_name = Some pre \<and> i < length (rows df) \<and>
    missing_fields (rows df ! i) \<noteq> [] \<longrightarrow>
      batch_rows (task w presets preset_name path df) ! i =
        \<lparr>row_errors = [missing_fields_msg i (missing_fields (rows df ! i))], row_saved = []\<rparr> \<and>
      (log_write w path = None \<longrightarrow>
         (\<exists>lg. batch_log (task w presets preset_name path df) = Some lg \<and>
            missing_fields_msg i (missing_fields (rows df ! i)) \<in> set lg)))"
proof -
  have 1: "is_missing v \<longleftrightarrow> v = None \<or> (\<exists>s. v = Some s \<and> py_strip s = [])"
    by (cases v) (simp_all add: is_missing_def)
  have 3: "missing_fields row \<noteq> [] \<longrightarrow>
      process_row w pre dups index row =
        \<lparr>row_errors = [''Row '' @ show_nat (index + 2) @ '': Missing fields - '' @
                        join '', '' (missing_fields row) @ ''.''],
         row_saved = []\<rparr>"
    by (simp add: process_row_missing missing_fields_msg_def row_prefix_def)
  have 4: "batch_rows (task w presets preset_name path df) ! i =
        \<lparr>row_errors = [missing_fields_msg i (missing_fields (rows df ! i))], row_saved = []\<rparr> \<and>
      (log_write w path = None \<longrightarrow>
         (\<exists>lg. batch_log (task w presets preset_name path df) = Some lg \<and>
            missing_fields_msg i (missing_fields (rows df ! i)) \<in> set lg))"
    if c: "missing_columns df = []" and p: "presets preset_name = Some pre"
      and i: "i < length (rows df)" and m: "missing_fields (rows df ! i) \<noteq> []"
  proof -
    let ?t = "task w presets preset_name path df"
    let ?r = "\<lparr>row_errors = [missing_fields_msg i (missing_fields (rows df ! i))], row_saved = []\<rparr>"
    from c p i m have r: "batch_rows ?t ! i = ?r"
      by (simp add: task_rows process_rows_nth process_row_missing)
    from c p i have "i < length (batch_rows ?t)"
      by (simp add: task_rows length_process_rows)
    with r have "?r \<in> set (batch_rows ?t)" by (metis nth_mem)
    with c p task_log [of df presets preset_name pre w path _ ?r]
    have "log_write w path = None \<longrightarrow>
         (\<exists>lg. batch_log ?t = Some lg \<and>
            missing_fields_msg i (missing_fields (rows df ! i)) \<in> set lg)"
      by simp
    with r show ?thesis by blast
  qed
  from 1 missing_fields_filter 3 4 show ?thesis by blast
qed

theorem row_missing_fields_witness:
  "missing_fields incomplete_row = [''Local Name'', ''Position_en''] \<and>
   process_row ok_world example_preset [] 1 incomplete_row =
     \<lparr>row_errors = [''Row 3: Missing fields - Local Name, Position_en.''], row_saved = []\<rparr> \<and>
   missing_columns one_incomplete = [] \<and>
   example_presets ''standard'' = Some example_preset \<and>
   1 < length (rows one_incomplete) \<and>
   missing_fields (rows one_incomplete ! 1) \<noteq> [] \<and>
   log_write ok_world ''log.txt'' = None \<and>
   batch_rows (task ok_world example_presets ''standard'' ''log.txt'' one_incomplete) ! 1 =
     \<lparr>row_errors = [''Row 3: Missing fields - Local Name, Position_en.''], row_saved = []\<rparr>"
proof -
  have m: "missing_fields incomplete_row = [''Local Name'', ''Position_en'']" by code_simp
  then have ne: "missing_fields incomplete_row \<noteq> []" by simp
  have c: "missing_columns one_incomplete = []" by code_simp
  have p: "example_presets ''standard'' = Some example_preset" by (simp add: example_presets_def)
  have i: "1 < length (rows one_incomplete)" by (simp add: one_incomplete_def)
  have r: "rows one_incomplete ! 1 = incomplete_row" by (simp add: one_incomplete_def)
  have l: "log_write ok_world ''log.txt'' = None" by code_simp
  have msg: "''Row '' @ show_nat (1 + 2) @ '': Missing fields - '' @
      join '', '' [''Local Name'', ''Position_en''] @ ''.'' =
      ''Row 3: Missing fields - Local Name, Position_en.''"
    by code_simp
  have msg': "missing_fields_msg 1 [''Local Name'', ''Position_en''] =
      ''Row 3: Missing fields - Local Name, Position_en.''"
    by code_simp
  note at_row = row_missing_fields [where row = incomplete_row and w = ok_world
      and pre = example_preset and dups = "[]" and index = 1 and df = one_incomplete
      and presets = example_presets and preset_name = "''standard''" and path = "''log.txt''"
      and i = 1]
  from at_row ne have "process_row ok_world example_preset [] 1 incomplete_row =
        \<lparr>row_errors = [''Row '' @ show_nat (1 + 2) @ '': Missing fields - '' @
                        join '', '' (missing_fields incomplete_row) @ ''.''],
         row_saved = []\<rparr>"
    by blast
  then have 1: "process_row ok_world example_preset [] 1 incomplete_row =
     \<lparr>row_errors = [''Row 3: Missing fields - Local Name, Position_en.''], row_saved = []\<rparr>"
    by (simp only: m msg)
  from ne r have ne': "missing_fields (rows one_incomplete ! 1) \<noteq> []" by simp
  from at_row c p i ne' have "batch_rows (task ok_world example_presets ''standard'' ''log.txt'' one_incomplete) ! 1 =
        \<lparr>row_errors = [missing_fields_msg 1 (missing_fields (rows one_incomplete ! 1))], row_saved = []\<rparr>"
    by blast
  also have "\<dots> = \<lparr>row_errors = [''Row 3: Missing fields - Local Name, Position_en.''], row_saved = []\<rparr>"
    by (simp only: r m msg')
  finally have 2: "batch_rows (task ok_world example_presets ''standard'' ''log.txt'' one_incomplete) ! 1 =
     \<lparr>row_errors = [''Row 3: Missing fields - Local Name, Position_en.''], row_saved = []\<rparr>" .
  show ?thesis by (intro conjI) (fact m 1 c p i ne' l 2)+
qed

section \<open>Missing columns\<close>

text \<open>
  C6. The columns are checked against the seven required names before anything else.
  When some are absent the batch stops at once: no row is validated, no badge is saved,
  and one message naming all the absent columns is shown and written to the log.
\<close>

theorem missing_columns_abort:
  "missing_columns df = filter (\<lambda>col. col \<notin> set (columns df)) required_columns \<and>
   missing_columns_msg (missing_columns df) =
     ''The Excel file is missing the following required columns: '' @
     join '', '' (missing_columns df) \<and>
   (missing_columns df \<noteq> [] \<longrightarrow>
      batch_rows (task w presets preset_name path df) = [] \<and>
      batch_saved (task w presets preset_name path df) = [] \<and>
      batch_log (task w presets preset_name path df) =
        fst (write_errors_to_log w [missing_columns_msg (missing_columns df)] path) \<and>
      batch_queued (task w presets preset_name path df) =
        ShowError ''Error'' (missing_columns_msg (missing_columns df)) #
        snd (write_errors_to_log w [missing_columns_msg (missing_columns df)] path) \<and>
      (log_write w path = None \<longrightarrow>
         batch_log (task w presets preset_name path df) =
           Some [missing_columns_msg (missing_columns df)] \<and>
         batch_queued (task w presets preset_name path df) =
           [ShowError ''Error'' (missing_columns_msg (missing_columns df))]))"
proof -
  have 1: "missing_columns df = filter (\<lambda>col. col \<notin> set (columns df)) required_columns"
    by (simp only: missing_columns_def)
  have 2: "missing_columns_msg (missing_columns df) =
     ''The Excel file is missing the following required columns: '' @
     join '', '' (missing_columns df)"
    by (simp only: missing_columns_msg_def)
  have 3: "batch_rows (task w presets preset_name path df) = [] \<and>
      batch_saved (task w presets preset_name path df) = [] \<and>
      batch_log (task w presets preset_name path df) =
        fst (write_errors_to_log w [missing_columns_msg (missing_columns df)] path) \<and>
      batch_queued (task w presets preset_name path df) =
        ShowError ''Error'' (missing_columns_msg (missing_columns df)) #
        snd (write_errors_to_log w [missing_columns_msg (missing_columns df)] path) \<and>
      (log_write w path = None \<longrightarrow>
         batch_log (task w presets preset_name path df) =
           Some [missing_columns_msg (missing_columns df)] \<and>
         batch_queued (task w presets preset_name path df) =
           [ShowError ''Error'' (missing_columns_msg (missing_columns df))])"
    if "missing_columns df \<noteq> []"
    by (simp add: task_missing_columns [OF that] write_errors_to_log_def)
  from 1 2 3 show ?thesis by blast
qed

theorem missing_columns_abort_witness:
  "missing_columns two_columns_short = [''Department_en'', ''Position_en''] \<and>
   log_write ok_world ''log.txt'' = None \<and>
   batch_rows (task ok_world example_presets ''standard'' ''log.txt'' two_columns_short) = [] \<and>
   batch_saved (task ok_world example_presets ''standard'' ''log.txt'' two_columns_short) = [] \<and>
   batch_log (task ok_world example_presets ''standard'' ''log.txt'' two_columns_short) =
     Some [''The Excel file is missing the following required columns: Department_en, Position_en'']"
proof -
  have m: "missing_columns two_columns_short = [''Department_en'', ''Position_en'']"
    by code_simp
  then have ne: "missing_columns two_columns_short \<noteq> []" by simp
  have l: "log_write ok_world ''log.txt'' = None" by code_simp
  note t = missing_columns_abort [of two_columns_short ok_world example_presets "''standard''"
      "''log.txt''", THEN conjunct2, THEN conjunct2, THEN mp, OF ne]
  from t have 1: "batch_rows (task ok_world example_presets ''standard'' ''log.txt'' two_columns_short) = []"
    by (rule conjunct1)
  from t have 2: "batch_saved (task ok_world example_presets ''standard'' ''log.txt'' two_columns_short) = []"
    by simp
  from t have "log_write ok_world ''log.txt'' = None \<longrightarrow>
         batch_log (task ok_world example_presets ''standard'' ''log.txt'' two_columns_short) =
           Some [missing_columns_msg (missing_columns two_columns_short)] \<and>
         batch_queued (task ok_world example_presets ''standard'' ''log.txt'' two_columns_short) =
           [ShowError ''Error'' (missing_columns_msg (missing_columns two_columns_short))]"
    by (elim conjE)
  with l have "batch_log (task ok_world example_presets ''standard'' ''log.txt'' two_columns_short) =
     Some [missing_columns_msg (missing_columns two_columns_short)]"
    by blast
  also have "\<dots> = Some [''The Excel file is missing the following required columns: Department_en, Position_en'']"
    by (simp add: m missing_columns_msg_def)
  finally have 3: "batch_log (task ok_world example_presets ''standard'' ''log.txt'' two_columns_short) =
     Some [''The Excel file is missing the following required columns: Department_en, Position_en'']" .
  show ?thesis by (intro conjI) (fact m l 1 2 3)+
qed

section \<open>Duplicate employee numbers\<close>

text \<open>
  C1. The claim: duplicates are found once, before the rows, among the normalized
  employee numbers, and every row whose number normalizes to a duplicated value is
  rejected with its own message and has no badge rendered. The code finds the
  duplicates among the trimmed numbers and then looks the cleaned number of each row up
  among them. On two rows that both carry \<^verbatim>\<open>1023.0\<close> the duplicate \<^verbatim>\<open>1023.0\<close> is found
  and reported for the batch, but the cleaned number \<^verbatim>\<open>1023\<close> is not among the
  duplicates: neither row gets a message, and both rows are rendered, onto the same two
  files.
\<close>

theorem duplicate_rows_rendered:
  "normalize_id ''1023.0'' = ''1023'' \<and>
   batch_duplicates twice_1023 = [''1023.0''] \<and>
   task ok_world example_presets ''standard'' ''log.txt'' twice_1023 =
     \<lparr>batch_queued = [ShowError ''Batch Generation Errors'' (log_notice ''log.txt'')],
      batch_log = Some [''Duplicate Employee Numbers found: 1023.0''],
      batch_saved =
        [''Badge_output/badge_front_1023.png'', ''Badge_output/badge_back_1023.png'',
         ''Badge_output/badge_front_1023.png'', ''Badge_output/badge_back_1023.png''],
      batch_rows =
        [\<lparr>row_errors = [],
           row_saved = [''Badge_output/badge_front_1023.png'', ''Badge_output/badge_back_1023.png'']\<rparr>,
         \<lparr>row_errors = [],
           row_saved = [''Badge_output/badge_front_1023.png'', ''Badge_output/badge_back_1023.png'']\<rparr>]\<rparr>"
  by code_simp

section \<open>Which side wins a merge\<close>

text \<open>
  C10. In the batch the preset is merged over the row's fields: a key of the preset keeps
  the preset's value in the record, and the row's value stands only where the preset has
  no such key. In the GUI the user's input is merged over the copy of the preset: the
  four keys typed in (name, id, department, position) keep the user's value, and every
  other key but the photo path keeps the preset's.
\<close>

theorem merge_order:
  "(k \<in> dom front_preset \<longrightarrow> front_data row employee_id front_preset k = front_preset k) \<and>
   (k \<in> dom back_preset \<longrightarrow> back_data row employee_id back_preset k = back_preset k) \<and>
   (k \<notin> dom front_preset \<longrightarrow>
      front_data row employee_id front_preset k =
        [''name'' \<mapsto> VStr (py_strip (astype_str (row ''Local Name''))),
         ''id'' \<mapsto> VStr (''No. '' @ employee_id),
         ''department'' \<mapsto> VStr (py_strip (astype_str (row ''Department''))),
         ''position'' \<mapsto> VStr (py_strip (astype_str (row ''Position'')))] k) \<and>
   dom (user_input upper es) = {''name'', ''id'', ''department'', ''position''} \<and>
   (k \<in> dom (user_input upper es) \<longrightarrow>
      gui_data upper sd side_preset es k = user_input upper es k) \<and>
   (k \<notin> dom (user_input upper es) \<and> k \<noteq> ''photo_img'' \<longrightarrow>
      gui_data upper sd side_preset es k = side_preset k)"
proof -
  have 1: "k \<in> dom front_preset \<longrightarrow> front_data row employee_id front_preset k = front_preset k"
    by (auto simp: front_data_def map_add_def split: option.splits)
  have 2: "k \<in> dom back_preset \<longrightarrow> back_data row employee_id back_preset k = back_preset k"
    by (auto simp: back_data_def map_add_def split: option.splits)
  have 3: "k \<notin> dom front_preset \<longrightarrow>
      front_data row employee_id front_preset k =
        [''name'' \<mapsto> VStr (py_strip (astype_str (row ''Local Name''))),
         ''id'' \<mapsto> VStr (''No. '' @ employee_id),
         ''department'' \<mapsto> VStr (py_strip (astype_str (row ''Department''))),
         ''position'' \<mapsto> VStr (py_strip (astype_str (row ''Position'')))] k"
    by (simp add: front_data_def map_add_dom_app_simps)
  have 5: "k \<in> dom (user_input upper es) \<longrightarrow>
      gui_data upper sd side_preset es k = user_input upper es k"
  proof
    assume k: "k \<in> dom (user_input upper es)"
    with photo_not_input [of upper es] have "k \<noteq> ''photo_img''" by blast
    with k show "gui_data upper sd side_preset es k = user_input upper es k"
      by (simp add: gui_data_def Let_def map_add_dom_app_simps)
  qed
  have 6: "k \<notin> dom (user_input upper es) \<and> k \<noteq> ''photo_img'' \<longrightarrow>
      gui_data upper sd side_preset es k = side_preset k"
    by (simp add: gui_data_def Let_def map_add_dom_app_simps)
  show ?thesis by (intro conjI) (fact 1 2 3 dom_user_input 5 6)+
qed

theorem merge_order_witness:
  "''name'' \<in> dom named_template \<and>
   front_data (example_row ''Li'' ''5'') ''5'' named_template ''name'' = Some (VStr ''Preset Name'') \<and>
   back_data (example_row ''Li'' ''5'') ''5'' named_template ''name'' = Some (VStr ''Preset Name'') \<and>
   ''id'' \<notin> dom named_template \<and>
   front_data (example_row ''Li'' ''5'') ''5'' named_template ''id'' = Some (VStr ''No. 5'') \<and>
   ''name'' \<in> dom (user_input ascii_upper example_entries) \<and>
   gui_data ascii_upper Front named_template example_entries ''name'' = Some (VStr ''Li'') \<and>
   ''font_id'' \<notin> dom (user_input ascii_upper example_entries) \<and>
   gui_data ascii_upper Front named_template example_entries ''font_id'' = Some (VStr ''mono.ttf'')"
proof -
  have a: "''name'' \<in> dom named_template" by (simp add: named_template_def)
  have b: "''id'' \<notin> dom named_template"
    by (simp add: named_template_def template_def dom_map_of_conv_image_fst)
  have c: "''name'' \<in> dom (user_input ascii_upper example_entries)"
    by (simp add: user_input_def)
  have d: "''font_id'' \<notin> dom (user_input ascii_upper example_entries)"
    by (simp add: user_input_def)
  have e: "''font_id'' \<noteq> ''photo_img''" by simp
  note at_name = merge_order [where k = "''name''" and front_preset = named_template
      and back_preset = named_template and row = "example_row ''Li'' ''5''"
      and employee_id = "''5''" and upper = ascii_upper and es = example_entries
      and sd = Front and side_preset = named_template]
  note at_id = merge_order [where k = "''id''" and front_preset = named_template
      and row = "example_row ''Li'' ''5''" and employee_id = "''5''"]
  note at_font = merge_order [where k = "''font_id''" and upper = ascii_upper
      and es = example_entries and sd = Front and side_preset = named_template]
  from at_name a have "front_data (example_row ''Li'' ''5'') ''5'' named_template ''name'' =
      named_template ''name''" by blast
  then have 1: "front_data (example_row ''Li'' ''5'') ''5'' named_template ''name'' =
      Some (VStr ''Preset Name'')" by (simp add: named_template_def)
  from at_name a have "back_data (example_row ''Li'' ''5'') ''5'' named_template ''name'' =
      named_template ''name''" by blast
  then have 2: "back_data (example_row ''Li'' ''5'') ''5'' named_template ''name'' =
      Some (VStr ''Preset Name'')" by (simp add: named_template_def)
  from at_id b have 3: "front_data (example_row ''Li'' ''5'') ''5'' named_template ''id'' =
      Some (VStr ''No. 5'')" by simp
  from at_name c have "gui_data ascii_upper Front named_template example_entries ''name'' =
      user_input ascii_upper example_entries ''name''" by blast
  also have "\<dots> = Some (VStr ''Li'')" by code_simp
  finally have 4: "gui_data ascii_upper Front named_template example_entries ''name'' =
      Some (VStr ''Li'')" .
  from at_font d e have "gui_data ascii_upper Front named_template example_entries ''font_id'' =
      named_template ''font_id''" by blast
  also have "\<dots> = Some (VStr ''mono.ttf'')" by code_simp
  finally have 5: "gui_data ascii_upper Front named_template example_entries ''font_id'' =
      Some (VStr ''mono.ttf'')" .
  show ?thesis by (intro conjI) (fact a 1 2 b 3 c 4 d 5)+
qed

section \<open>Page order and pagination\<close>

text \<open>
  C7. For a document that \<^verbatim>\<open>generate_badge_pdf\<close> composes from the files of the badge
  folder: the keys are the union of the keys of the front files and of the back files,
  sorted ascending and without repetition, and they depend only on the set of files. Read
  page by page and slot by slot, the document's keys are exactly this sorted list; there
  are three keys on every page but possibly the last, so the number of pages is the
  number of keys divided by three, rounded up, and seven keys give three pages. Every
  image in slot \<open>j\<close> of a page has the horizontal position
  \<open>j * (badge_width + group_spacing_x) + group_spacing_x\<close>.
\<close>

theorem page_order:
  assumes gen: "generate_badge_pdf w config = Inr doc"
    and lay: "read_layout config = Inr lay"
    and ls: "listdir w (folder lay) = Files files"
    and ks: "ks = all_keys (front_prefix lay) (back_prefix lay) files"
  shows "sorted ks \<and> distinct ks \<and>
    set ks = file_key (front_prefix lay) ` {f \<in> set files. startswith f (front_prefix lay)} \<union>
             file_key (back_prefix lay) ` {f \<in> set files. startswith f (back_prefix lay)} \<and>
    (\<forall>files'. set files' = set files \<longrightarrow>
       all_keys (front_prefix lay) (back_prefix lay) files' = ks) \<and>
    map slot_key (concat (doc_pages doc)) = ks \<and>
    length (doc_pages doc) = (length ks + 2) div 3 \<and>
    (length ks = 7 \<longrightarrow> length (doc_pages doc) = 3) \<and>
    badge_width config = Some (width lay) \<and>
    group_spacing_x config = Some (spacing_x lay) \<and>
    (\<forall>p<length (doc_pages doc).
       length (doc_pages doc ! p) = min 3 (length ks - 3 * p) \<and>
       (\<forall>j<length (doc_pages doc ! p).
          slot_key (doc_pages doc ! p ! j) = ks ! (3 * p + j) \<and>
          (\<forall>img\<in>set (slot_images (doc_pages doc ! p ! j)).
             pos_x img = real j * (width lay + spacing_x lay) + spacing_x lay)))"
proof -
  note comp = generate_badge_pdf_compose [OF gen lay]
  note pages = compose_pages [OF comp ls]
  have 1: "sorted ks" "distinct ks"
    by (simp_all add: ks all_keys_sorted all_keys_distinct)
  have 2: "set ks = file_key (front_prefix lay) ` {f \<in> set files. startswith f (front_prefix lay)} \<union>
             file_key (back_prefix lay) ` {f \<in> set files. startswith f (back_prefix lay)}"
    by (simp only: ks set_all_keys)
  have 3: "\<forall>files'. set files' = set files \<longrightarrow>
       all_keys (front_prefix lay) (back_prefix lay) files' = ks"
    unfolding ks by (intro allI impI) (rule all_keys_set_cong)
  from pages_keys [OF pages] have 4: "map slot_key (concat (doc_pages doc)) = ks"
    by (simp only: ks)
  from layout_pages_pages(1) [OF pages] have 5: "length (doc_pages doc) = (length ks + 2) div 3"
    by (simp only: ks)
  then have 6: "length ks = 7 \<longrightarrow> length (doc_pages doc) = 3" by simp
  have 7: "length (doc_pages doc ! p) = min 3 (length ks - 3 * p) \<and>
       (\<forall>j<length (doc_pages doc ! p).
          slot_key (doc_pages doc ! p ! j) = ks ! (3 * p + j) \<and>
          (\<forall>img\<in>set (slot_images (doc_pages doc ! p ! j)).
             pos_x img = real j * (width lay + spacing_x lay) + spacing_x lay))"
    if p: "p < length (doc_pages doc)" for p
  proof -
    note page = layout_pages_pages(2) [OF pages p]
    from layout_page_slots(1) [OF page]
    have a: "length (doc_pages doc ! p) = min 3 (length ks - 3 * p)" by (simp only: ks)
    have b: "slot_key (doc_pages doc ! p ! j) = ks ! (3 * p + j) \<and>
          (\<forall>img\<in>set (slot_images (doc_pages doc ! p ! j)).
             pos_x img = real j * (width lay + spacing_x lay) + spacing_x lay)"
      if j: "j < length (doc_pages doc ! p)" for j
    proof -
      note sl = slot_of_document [OF comp ls p j]
      from place_key_Inr(1) [OF sl] have "slot_key (doc_pages doc ! p ! j) = ks ! (3 * p + j)"
        by (simp only: ks)
      moreover from place_key_Inr(2) [OF sl]
      have "\<forall>img\<in>set (slot_images (doc_pages doc ! p ! j)).
             pos_x img = real j * (width lay + spacing_x lay) + spacing_x lay"
        by (simp add: x_pos_def mult.commute)
      ultimately show ?thesis by blast
    qed
    from a b show ?thesis by blast
  qed
  note bw = read_layout_Inr(7) [OF lay]
  note gx = read_layout_Inr(4) [OF lay]
  from 7 have 8: "\<forall>p<length (doc_pages doc).
       length (doc_pages doc ! p) = min 3 (length ks - 3 * p) \<and>
       (\<forall>j<length (doc_pages doc ! p).
          slot_key (doc_pages doc ! p ! j) = ks ! (3 * p + j) \<and>
          (\<forall>img\<in>set (slot_images (doc_pages doc ! p ! j)).
             pos_x img = real j * (width lay + spacing_x lay) + spacing_x lay))"
    by blast
  show ?thesis by (intro conjI) (fact 1 2 3 4 5 6 bw gx 8)+
qed

theorem page_order_witness:
  "generate_badge_pdf example_pdf_world example_config = Inr example_document \<and>
   read_layout example_config = Inr example_layout \<and>
   listdir example_pdf_world (folder example_layout) = Files badge_files \<and>
   [''1'', ''2'', ''3'', ''4'', ''5'', ''6'', ''7''] =
     all_keys (front_prefix example_layout) (back_prefix example_layout) badge_files \<and>
   length [''1'', ''2'', ''3'', ''4'', ''5'', ''6'', ''7''] = 7 \<and>
   length (doc_pages example_document) = 3 \<and>
   map slot_key (concat (doc_pages example_document)) =
     [''1'', ''2'', ''3'', ''4'', ''5'', ''6'', ''7''] \<and>
   length (doc_pages example_document ! 2) = 1 \<and>
   slot_key (doc_pages example_document ! 2 ! 0) = ''7'' \<and>
   pos_x (hd (slot_images (doc_pages example_document ! 0 ! 1))) = 1 * (60 + 5) + 5"
proof -
  let ?ks = "[''1'', ''2'', ''3'', ''4'', ''5'', ''6'', ''7'']"
  note po = page_order [OF example_composed example_read_layout example_listing example_keys]
  have n: "length ?ks = 7" by simp
  from po have "length ?ks = 7 \<longrightarrow> length (doc_pages example_document) = 3"
    by (elim conjE)
  with n have 1: "length (doc_pages example_document) = 3" by (rule rev_mp)
  from po have 2: "map slot_key (concat (doc_pages example_document)) = ?ks"
    by (elim conjE)
  from po have pages: "\<forall>p<length (doc_pages example_document).
       length (doc_pages example_document ! p) = min 3 (length ?ks - 3 * p) \<and>
       (\<forall>j<length (doc_pages example_document ! p).
          slot_key (doc_pages example_document ! p ! j) = ?ks ! (3 * p + j) \<and>
          (\<forall>img\<in>set (slot_images (doc_pages example_document ! p ! j)).
             pos_x img = real j * (width example_layout + spacing_x example_layout) +
               spacing_x example_layout))"
    by (elim conjE)
  from 1 have p2: "2 < length (doc_pages example_document)"
    and p0: "0 < length (doc_pages example_document)" by simp_all
  from pages p2 have l2: "length (doc_pages example_document ! 2) = min 3 (length ?ks - 3 * 2)"
    by blast
  then have 3: "length (doc_pages example_document ! 2) = 1" by simp
  then have j0: "0 < length (doc_pages example_document ! 2)" by simp
  from pages p2 j0 have "slot_key (doc_pages example_document ! 2 ! 0) = ?ks ! (3 * 2 + 0)"
    by blast
  then have 4: "slot_key (doc_pages example_document ! 2 ! 0) = ''7''" by simp
  from pages p0 have "length (doc_pages example_document ! 0) = min 3 (length ?ks - 3 * 0)"
    by blast
  then have j1: "1 < length (doc_pages example_document ! 0)" by simp
  have "hd (slot_images (doc_pages example_document ! 0 ! 1)) \<in>
      set (slot_images (doc_pages example_document ! 0 ! 1))"
    by (simp add: example_document_def)
  with pages p0 j1 have "pos_x (hd (slot_images (doc_pages example_document ! 0 ! 1))) =
      real 1 * (width example_layout + spacing_x example_layout) + spacing_x example_layout"
    by blast
  then have 5: "pos_x (hd (slot_images (doc_pages example_document ! 0 ! 1))) = 1 * (60 + 5) + 5"
    by (simp add: example_layout_def)
  show ?thesis
    by (intro conjI)
      (fact example_composed example_read_layout example_listing example_keys n 1 2 3 4 5)+
qed

section \<open>Front above back\<close>

text \<open>
  C8. For every slot of a composed document: when the key has a front image, that image
  is placed at the top margin, and a back image, if the key has one, is placed in the
  same horizontal slot below it, lower by the front's height and the row gap; when the
  key has no front image, its back image is placed at the top margin in that slot.
\<close>

theorem slot_layout:
  assumes gen: "generate_badge_pdf w config = Inr doc"
    and lay: "read_layout config = Inr lay"
    and ls: "listdir w (folder lay) = Files files"
    and fd: "front_files_dict = files_dict (front_prefix lay) (prefixed_files (front_prefix lay) files)"
    and bd: "back_files_dict = files_dict (back_prefix lay) (prefixed_files (back_prefix lay) files)"
    and p: "p < length (doc_pages doc)" and j: "j < length (doc_pages doc ! p)"
    and s: "s = doc_pages doc ! p ! j"
  shows "start_y_position config = Some (start_y lay) \<and>
    group_spacing_y config = Some (spacing_y lay) \<and>
    (\<forall>f. present (front_files_dict (slot_key s)) = Some f \<longrightarrow>
       (\<exists>front. slot_images s \<noteq> [] \<and> hd (slot_images s) = front \<and>
          img_path front = os_path_join (folder lay) f \<and>
          pos_x front = x_pos lay j \<and> pos_y front = start_y lay \<and>
          (\<forall>b. present (back_files_dict (slot_key s)) = Some b \<longrightarrow>
             (\<exists>back. slot_images s = [front, back] \<and>
                img_path back = os_path_join (folder lay) b \<and>
                pos_x back = x_pos lay j \<and>
                pos_y back = start_y lay + img_h front + spacing_y lay)) \<and>
          (present (back_files_dict (slot_key s)) = None \<longrightarrow> slot_images s = [front]))) \<and>
    (present (front_files_dict (slot_key s)) = None \<longrightarrow>
       (\<forall>b. present (back_files_dict (slot_key s)) = Some b \<longrightarrow>
          (\<exists>back. slot_images s = [back] \<and>
             img_path back = os_path_join (folder lay) b \<and>
             pos_x back = x_pos lay j \<and> pos_y back = start_y lay)) \<and>
       (present (back_files_dict (slot_key s)) = None \<longrightarrow> slot_images s = []))"
proof -
  note comp = generate_badge_pdf_compose [OF gen lay]
  from slot_of_document [OF comp ls p j]
  have pk: "place_key w lay front_files_dict back_files_dict j
      (all_keys (front_prefix lay) (back_prefix lay) files ! (3 * p + j)) = Inr s"
    by (simp only: fd bd s)
  from place_key_Inr(1) [OF pk]
  have "all_keys (front_prefix lay) (back_prefix lay) files ! (3 * p + j) = slot_key s" by simp
  with pk have pk': "place_key w lay front_files_dict back_files_dict j (slot_key s) = Inr s"
    by simp
  have a: "\<forall>f. present (front_files_dict (slot_key s)) = Some f \<longrightarrow>
       (\<exists>front. slot_images s \<noteq> [] \<and> hd (slot_images s) = front \<and>
          img_path front = os_path_join (folder lay) f \<and>
          pos_x front = x_pos lay j \<and> pos_y front = start_y lay \<and>
          (\<forall>b. present (back_files_dict (slot_key s)) = Some b \<longrightarrow>
             (\<exists>back. slot_images s = [front, back] \<and>
                img_path back = os_path_join (folder lay) b \<and>
                pos_x back = x_pos lay j \<and>
                pos_y back = start_y lay + img_h front + spacing_y lay)) \<and>
          (present (back_files_dict (slot_key s)) = None \<longrightarrow> slot_images s = [front]))"
    using place_key_front [OF pk'] by blast
  have b: "present (front_files_dict (slot_key s)) = None \<longrightarrow>
       (\<forall>b. present (back_files_dict (slot_key s)) = Some b \<longrightarrow>
          (\<exists>back. slot_images s = [back] \<and>
             img_path back = os_path_join (folder lay) b \<and>
             pos_x back = x_pos lay j \<and> pos_y back = start_y lay)) \<and>
       (present (back_files_dict (slot_key s)) = None \<longrightarrow> slot_images s = [])"
    using place_key_no_front [OF pk'] by blast
  note sy = read_layout_Inr(6) [OF lay]
  note gy = read_layout_Inr(5) [OF lay]
  show ?thesis by (intro conjI) (fact sy gy a b)+
qed
theorem slot_layout_witness:
  "generate_badge_pdf example_pdf_world example_config = Inr example_document \<and>
   read_layout example_config = Inr example_layout \<and>
   listdir example_pdf_world (folder example_layout) = Files badge_files \<and>
   present (files_dict ''badge_front_'' (prefixed_files ''badge_front_'' badge_files) ''1'') =
     Some ''badge_front_1.png'' \<and>
   present (files_dict ''badge_back_'' (prefixed_files ''badge_back_'' badge_files) ''1'') =
     Some ''badge_back_1.png'' \<and>
   pos_y (hd (slot_images (doc_pages example_document ! 0 ! 0))) = 10 \<and>
   pos_y (slot_images (doc_pages example_document ! 0 ! 0) ! 1) =
     10 + img_h (hd (slot_images (doc_pages example_document ! 0 ! 0))) + 4 \<and>
   pos_x (slot_images (doc_pages example_document ! 0 ! 0) ! 1) =
     pos_x (hd (slot_images (doc_pages example_document ! 0 ! 0))) \<and>
   present (files_dict ''badge_front_'' (prefixed_files ''badge_front_'' badge_files) ''7'') = None \<and>
   present (files_dict ''badge_back_'' (prefixed_files ''badge_back_'' badge_files) ''7'') =
     Some ''badge_back_7.png'' \<and>
   length (slot_images (doc_pages example_document ! 2 ! 0)) = 1 \<and>
   img_path (hd (slot_images (doc_pages example_document ! 2 ! 0))) =
     ''Badge_output/badge_back_7.png'' \<and>
   pos_y (hd (slot_images (doc_pages example_document ! 2 ! 0))) = 10"
proof -
  let ?fd = "files_dict (front_prefix example_layout)
      (prefixed_files (front_prefix example_layout) badge_files)"
  let ?bd = "files_dict (back_prefix example_layout)
      (prefixed_files (back_prefix example_layout) badge_files)"
  let ?s1 = "doc_pages example_document ! 0 ! 0"
  let ?s7 = "doc_pages example_document ! 2 ! 0"
  have fp: "front_prefix example_layout = ''badge_front_''"
    and bp: "back_prefix example_layout = ''badge_back_''"
    and sy: "start_y example_layout = 10" and gy: "spacing_y example_layout = 4"
    and fo: "folder example_layout = ''Badge_output''"
    by (simp_all add: example_layout_def)
  have k1: "slot_key ?s1 = ''1''" and k7: "slot_key ?s7 = ''7''"
    by (simp_all add: example_document_def)
  have f1: "present (files_dict ''badge_front_'' (prefixed_files ''badge_front_'' badge_files) ''1'') =
     Some ''badge_front_1.png''" by code_simp
  have b1: "present (files_dict ''badge_back_'' (prefixed_files ''badge_back_'' badge_files) ''1'') =
     Some ''badge_back_1.png''" by code_simp
  have f7: "present (files_dict ''badge_front_'' (prefixed_files ''badge_front_'' badge_files) ''7'') =
     None" by code_simp
  have b7: "present (files_dict ''badge_back_'' (prefixed_files ''badge_back_'' badge_files) ''7'') =
     Some ''badge_back_7.png''" by code_simp
  have p0: "0 < length (doc_pages example_document)" and j0: "0 < length (doc_pages example_document ! 0)"
    and p2: "2 < length (doc_pages example_document)" and j2: "0 < length (doc_pages example_document ! 2)"
    by (simp_all add: example_document_def)
  note at1 = slot_layout [OF example_composed example_read_layout example_listing refl refl p0 j0 refl]
  note at7 = slot_layout [OF example_composed example_read_layout example_listing refl refl p2 j2 refl]
  from at1 have "\<forall>f. present (?fd (slot_key ?s1)) = Some f \<longrightarrow>
       (\<exists>front. slot_images ?s1 \<noteq> [] \<and> hd (slot_images ?s1) = front \<and>
          img_path front = os_path_join (folder example_layout) f \<and>
          pos_x front = x_pos example_layout 0 \<and> pos_y front = start_y example_layout \<and>
          (\<forall>b. present (?bd (slot_key ?s1)) = Some b \<longrightarrow>
             (\<exists>back. slot_images ?s1 = [front, back] \<and>
                img_path back = os_path_join (folder example_layout) b \<and>
                pos_x back = x_pos example_layout 0 \<and>
                pos_y back = start_y example_layout + img_h front + spacing_y example_layout)) \<and>
          (present (?bd (slot_key ?s1)) = None \<longrightarrow> slot_images ?s1 = [front]))"
    by (elim conjE)
  with f1 b1 obtain fr bk where "hd (slot_images ?s1) = fr"
    and "pos_x fr = x_pos example_layout 0" and "pos_y fr = start_y example_layout"
    and "slot_images ?s1 = [fr, bk]" and "pos_x bk = x_pos example_layout 0"
    and "pos_y bk = start_y example_layout + img_h fr + spacing_y example_layout"
    unfolding fp bp k1 by blast
  then have 1: "pos_y (hd (slot_images ?s1)) = 10"
    and 2: "pos_y (slot_images ?s1 ! 1) = 10 + img_h (hd (slot_images ?s1)) + 4"
    and 3: "pos_x (slot_images ?s1 ! 1) = pos_x (hd (slot_images ?s1))"
    by (simp_all add: sy gy)
  from at7 have "present (?fd (slot_key ?s7)) = None \<longrightarrow>
       (\<forall>b. present (?bd (slot_key ?s7)) = Some b \<longrightarrow>
          (\<exists>back. slot_images ?s7 = [back] \<and>
             img_path back = os_path_join (folder example_layout) b \<and>
             pos_x back = x_pos example_layout 0 \<and> pos_y back = start_y example_layout)) \<and>
       (present (?bd (slot_key ?s7)) = None \<longrightarrow> slot_images ?s7 = [])"
    by (elim conjE)
  with f7 b7 obtain bk where "slot_images ?s7 = [bk]"
    and "img_path bk = os_path_join (folder example_layout) ''badge_back_7.png''"
    and "pos_y bk = start_y example_layout"
    unfolding fp bp k7 by blast
  then have 4: "length (slot_images ?s7) = 1"
    and 5: "img_path (hd (slot_images ?s7)) = ''Badge_output/badge_back_7.png''"
    and 6: "pos_y (hd (slot_images ?s7)) = 10"
    by (simp_all add: sy fo os_path_join_def startswith_def endswith_def)
  show ?thesis
    by (intro conjI)
      (fact example_composed example_read_layout example_listing f1 b1 1 2 3 f7 b7 4 5 6)+
qed

end
